theory Spec2Isabelle
  imports Complex_Main
begin

section \<open>Electric circuit laws: the calculators of lab.js and part\_000\<close>

text \<open>
  The repository holds two scripts, \<^verbatim>\<open>src/lab.js\<close> and
  \<^verbatim>\<open>src/unnamed/part_000\<close>. Both define the same four arithmetic
  functions (\<^verbatim>\<open>calculateOhmsLaw\<close>, \<^verbatim>\<open>calculateKCL\<close>,
  \<^verbatim>\<open>calculateKVL\<close>, \<^verbatim>\<open>isKVLBalanced\<close>) with the same bodies,
  and wire them to DOM elements.

  Numbers. A JavaScript number is an IEEE 754 binary64 value, and the operators round:
  the spec's formulas over the reals are not what the scripts compute. The arithmetic
  is therefore modelled with its rounding (to nearest, ties to even), its overflow to
  infinity, its gradual underflow and its non-finite values. One thing is left out, the
  sign of a zero: it shows only in a quotient by zero, and the one division of the
  scripts is guarded against a zero divisor (comparisons treat both zeros alike, and
  \<^verbatim>\<open>toFixed\<close> reads the mathematical value).
\<close>

subsection \<open>Binary64 numbers and rounding\<close>

text \<open>
  A finite number is the real it denotes; \<open>is_double\<close> below says which reals are
  such values.
\<close>

datatype number = Finite real | PosInfinity | NegInfinity | NaN

text \<open>
  \<open>binade a\<close> is the exponent \<open>e\<close> with \<open>2^e \<le> a < 2^(e+1)\<close>, clamped to the
  exponent range of binary64: \<open>- 1022\<close> for the subnormal numbers and zero, \<open>1023\<close> at
  most. A binary64 number of that binade is a multiple of \<open>2^(e - 52)\<close>.
\<close>

definition binade :: "real \<Rightarrow> int" where
  "binade a = Max (insert (- 1022) (Set.filter (\<lambda>e. 2 powi e \<le> a) {- 1022..1023}))"

definition round_half_even :: "real \<Rightarrow> int" where
  "round_half_even y =
     (let f = \<lfloor>y\<rfloor>; r = y - of_int f
      in if r < 1 / 2 then f else if 1 / 2 < r then f + 1 else if even f then f else f + 1)"

text \<open>
  \<open>round64 x\<close> is the binary64 number nearest to the real \<open>x\<close>, the one with the even
  significand at a tie; a result of magnitude \<open>2^1024\<close> is an infinity.
\<close>

definition round64 :: "real \<Rightarrow> number" where
  "round64 x =
     (let a = \<bar>x\<bar>;
          q = binade a - 52;
          m = round_half_even (a / 2 powi q);
          r = of_int m * 2 powi q
      in if 2 powi 1024 \<le> r then (if 0 < x then PosInfinity else NegInfinity)
         else Finite (if x < 0 then - r else r))"

definition is_double :: "real \<Rightarrow> bool" where
  "is_double x \<longleftrightarrow> round64 x = Finite x"

subsection \<open>The operators\<close>

text \<open>The operators \<^verbatim>\<open>+\<close> and \<^verbatim>\<open>-\<close>, \<^verbatim>\<open>Math.abs\<close> and \<^verbatim>\<open><\<close>.\<close>

fun js_add :: "number \<Rightarrow> number \<Rightarrow> number" where
  "js_add NaN _ = NaN"
| "js_add _ NaN = NaN"
| "js_add PosInfinity NegInfinity = NaN"
| "js_add NegInfinity PosInfinity = NaN"
| "js_add PosInfinity _ = PosInfinity"
| "js_add _ PosInfinity = PosInfinity"
| "js_add NegInfinity _ = NegInfinity"
| "js_add _ NegInfinity = NegInfinity"
| "js_add (Finite x) (Finite y) = round64 (x + y)"

fun js_sub :: "number \<Rightarrow> number \<Rightarrow> number" where
  "js_sub NaN _ = NaN"
| "js_sub _ NaN = NaN"
| "js_sub PosInfinity PosInfinity = NaN"
| "js_sub NegInfinity NegInfinity = NaN"
| "js_sub PosInfinity _ = PosInfinity"
| "js_sub _ PosInfinity = NegInfinity"
| "js_sub NegInfinity _ = NegInfinity"
| "js_sub _ NegInfinity = PosInfinity"
| "js_sub (Finite x) (Finite y) = round64 (x - y)"

fun js_abs :: "number \<Rightarrow> number" where
  "js_abs (Finite x) = Finite \<bar>x\<bar>"
| "js_abs PosInfinity = PosInfinity"
| "js_abs NegInfinity = PosInfinity"
| "js_abs NaN = NaN"

fun js_less :: "number \<Rightarrow> number \<Rightarrow> bool" where
  "js_less NaN _ = False"
| "js_less _ NaN = False"
| "js_less (Finite x) (Finite y) = (x < y)"
| "js_less _ NegInfinity = False"
| "js_less NegInfinity _ = True"
| "js_less PosInfinity _ = False"
| "js_less _ PosInfinity = True"

text \<open>
  The operator \<^verbatim>\<open>/\<close> is \<open>ieee_div\<close>. With a zero divisor the quotient is an
  infinity or \<^verbatim>\<open>NaN\<close> (\<open>zero_quotient\<close>, here for a positive zero); with any other
  divisor it is rounded, and can still be an infinity, by overflow or from an infinite
  dividend, or \<^verbatim>\<open>NaN\<close>. \<open>js_div\<close> is the same operator with its outcome tagged:
  \<open>Inl\<close> where the divisor was zero, \<open>Inr\<close> elsewhere, so that a property can say
  that a computation never divides by zero.
\<close>

fun zero_quotient :: "number \<Rightarrow> number" where
  "zero_quotient (Finite x) = (if 0 < x then PosInfinity else if x < 0 then NegInfinity else NaN)"
| "zero_quotient PosInfinity = PosInfinity"
| "zero_quotient NegInfinity = NegInfinity"
| "zero_quotient NaN = NaN"

fun ieee_div :: "number \<Rightarrow> number \<Rightarrow> number" where
  "ieee_div NaN _ = NaN"
| "ieee_div _ NaN = NaN"
| "ieee_div (Finite x) (Finite y) =
     (if y = 0 then zero_quotient (Finite x) else round64 (x / y))"
| "ieee_div (Finite x) _ = Finite 0"
| "ieee_div PosInfinity (Finite y) = (if 0 \<le> y then PosInfinity else NegInfinity)"
| "ieee_div NegInfinity (Finite y) = (if 0 \<le> y then NegInfinity else PosInfinity)"
| "ieee_div _ _ = NaN"

definition js_div :: "number \<Rightarrow> number \<Rightarrow> number + number" where
  "js_div a b = (if b = Finite 0 then Inl (zero_quotient a) else Inr (ieee_div a b))"

text \<open>The number itself, wherever it came from.\<close>

definition value_of :: "number + number \<Rightarrow> number" where
  "value_of r = (case r of Inl v \<Rightarrow> v | Inr v \<Rightarrow> v)"

subsection \<open>The three laws\<close>

text \<open>
  \<^verbatim>\<open>
  function calculateOhmsLaw(voltage, resistance) {
      if (resistance === 0) { return 0; }
      return voltage / resistance;
  }
  \<close>
  (lab.js 74--81, part\_000 88--91).
\<close>

definition calculateOhmsLaw :: "number \<Rightarrow> number \<Rightarrow> number + number" where
  "calculateOhmsLaw voltage resistance =
     (if resistance = Finite 0 then Inr (Finite 0) else js_div voltage resistance)"

text \<open>\<^verbatim>\<open>function calculateKCL(i1, i2) { return i1 + i2; }\<close> (lab.js 150--153, part\_000 136--138).\<close>

definition calculateKCL :: "number \<Rightarrow> number \<Rightarrow> number" where
  "calculateKCL i1 i2 = js_add i1 i2"

text \<open>\<^verbatim>\<open>function calculateKVL(v1, v2) { return v1 + v2; }\<close> (lab.js 221--224, part\_000 182--184).\<close>

definition calculateKVL :: "number \<Rightarrow> number \<Rightarrow> number" where
  "calculateKVL v1 v2 = js_add v1 v2"

text \<open>
  \<^verbatim>\<open>
  function isKVLBalanced(sourceVoltage, voltageSum) {
      const tolerance = 0.01;
      return Math.abs(sourceVoltage - voltageSum) < tolerance;
  }
  \<close>
  (lab.js 232--236, part\_000 186--189). The literal \<^verbatim>\<open>0.01\<close> is the binary64
  number nearest to one hundredth.
\<close>

definition isKVLBalanced :: "number \<Rightarrow> number \<Rightarrow> bool" where
  "isKVLBalanced sourceVoltage voltageSum =
     (let tolerance = round64 (1 / 100)
      in js_less (js_abs (js_sub sourceVoltage voltageSum)) tolerance)"

subsection \<open>Number formatting\<close>

text \<open>
  \<^verbatim>\<open>Number.prototype.toFixed\<close> is the platform's, not the repository's; it is
  modelled from ECMAScript (sec. 21.1.3.3). The decimal digits of a natural number:
\<close>

definition digit_char :: "nat \<Rightarrow> char" where
  "digit_char k = ''0123456789'' ! k"

function digits :: "nat \<Rightarrow> string" where
  "digits n = (if n < 10 then [digit_char n] else digits (n div 10) @ [digit_char (n mod 10)])"
  by pat_completeness auto
termination
  by (relation "measure (\<lambda>n. n)") auto

declare digits.simps [simp del]

text \<open>
  \<open>toFixed expo f x\<close> is \<^verbatim>\<open>x.toFixed(f)\<close> for a finite \<open>x\<close>; it works on the exact
  value of the number: the sign, then the integer \<open>n\<close> nearest to \<open>\<bar>x\<bar> * 10^f\<close> (the
  larger one at a tie) written with a point before its last \<open>f\<close> digits, padded with
  zeros to \<open>f + 1\<close> digits. From \<open>10^21\<close> on, ECMAScript prints the number in its
  exponent notation instead; that printer is the parameter \<open>expo\<close>.
\<close>

definition toFixed :: "(real \<Rightarrow> string) \<Rightarrow> nat \<Rightarrow> real \<Rightarrow> string" where
  "toFixed expo f x0 =
     (let s = (if x0 < 0 then ''-'' else []);
          x = (if x0 < 0 then - x0 else x0);
          m = (if 10 ^ 21 \<le> x then expo x
               else let n = nat \<lfloor>x * 10 ^ f + 1 / 2\<rfloor>;
                        m = digits n
                    in if f \<noteq> 0
                       then let k = length m;
                                m = (if k \<le> f then replicate (f + 1 - k) CHR ''0'' @ m else m);
                                k = (if k \<le> f then f + 1 else k)
                            in take (k - f) m @ ''.'' @ drop (k - f) m
                       else m)
      in s @ m)"

text \<open>\<^verbatim>\<open>toFixed\<close> on any number: a non-finite number prints as its name.\<close>

definition toFixed_number :: "(real \<Rightarrow> string) \<Rightarrow> nat \<Rightarrow> number \<Rightarrow> string" where
  "toFixed_number expo f v =
     (case v of
        Finite x \<Rightarrow> toFixed expo f x
      | PosInfinity \<Rightarrow> ''Infinity''
      | NegInfinity \<Rightarrow> ''-Infinity''
      | NaN \<Rightarrow> ''NaN'')"

subsection \<open>The document\<close>

text \<open>
  The markup is not part of the repository; the scripts reach it through
  \<^verbatim>\<open>querySelectorAll\<close>, \<^verbatim>\<open>getElementById\<close>, \<^verbatim>\<open>getAttribute\<close>,
  \<^verbatim>\<open>classList\<close>, \<^verbatim>\<open>value\<close>, \<^verbatim>\<open>textContent\<close> and
  \<^verbatim>\<open>style.color\<close>. An element carries what these read and write. A slider's
  \<open>val\<close> is the real that its \<^verbatim>\<open>value\<close> string denotes (a range input always
  holds a valid decimal number); \<^verbatim>\<open>parseFloat\<close> rounds it to binary64.
\<close>

record element =
  ident :: "string option"
  classes :: "string set"
  attrs :: "string \<Rightarrow> string option"
  val :: real
  textContent :: string
  color :: string

text \<open>
  The document is the list of its elements in document order. Elements are mutable
  objects shared between node lists and closures, so a reference to an element is its
  index in the document; \<open>None\<close> is \<^verbatim>\<open>null\<close>.
\<close>

definition querySelectorAll :: "string \<Rightarrow> element list \<Rightarrow> nat list" where
  "querySelectorAll cls d = filter (\<lambda>i. cls \<in> classes (d ! i)) [0..<length d]"

definition getElementById :: "string \<Rightarrow> element list \<Rightarrow> nat option" where
  "getElementById i d = find (\<lambda>k. ident (d ! k) = Some i) [0..<length d]"

definition getAttribute :: "string \<Rightarrow> nat \<Rightarrow> element list \<Rightarrow> string option" where
  "getAttribute name e d = attrs (d ! e) name"

definition classList_remove :: "string \<Rightarrow> nat \<Rightarrow> element list \<Rightarrow> element list" where
  "classList_remove c e d = d[e := (d ! e)\<lparr>classes := classes (d ! e) - {c}\<rparr>]"

definition classList_add :: "string \<Rightarrow> nat \<Rightarrow> element list \<Rightarrow> element list" where
  "classList_add c e d = d[e := (d ! e)\<lparr>classes := insert c (classes (d ! e))\<rparr>]"

datatype js_error = TypeError

text \<open>
  \<^verbatim>\<open>r.classList.add(c)\<close> on a reference that may be \<^verbatim>\<open>null\<close>: reading a
  property of \<^verbatim>\<open>null\<close> throws a \<^verbatim>\<open>TypeError\<close>.
\<close>

definition classList_add_ref :: "string \<Rightarrow> nat option \<Rightarrow> element list \<Rightarrow> js_error + element list" where
  "classList_add_ref c r d = (case r of None \<Rightarrow> Inl TypeError | Some e \<Rightarrow> Inr (classList_add c e d))"

definition set_textContent :: "nat \<Rightarrow> string \<Rightarrow> element list \<Rightarrow> element list" where
  "set_textContent e s d = d[e := (d ! e)\<lparr>textContent := s\<rparr>]"

definition set_color :: "nat \<Rightarrow> string \<Rightarrow> element list \<Rightarrow> element list" where
  "set_color e s d = d[e := (d ! e)\<lparr>color := s\<rparr>]"

definition parseFloat_value :: "nat \<Rightarrow> element list \<Rightarrow> number" where
  "parseFloat_value e d = round64 (val (d ! e))"

text \<open>
  A value that is a string or \<^verbatim>\<open>null\<close> (what \<^verbatim>\<open>getAttribute\<close> returns):
  \<open>js_string\<close> is its conversion to a string, as \<^verbatim>\<open>+\<close> and
  \<^verbatim>\<open>getElementById\<close> apply it, and \<open>falsy\<close> is what \<^verbatim>\<open>!\<close> tests.
\<close>

definition js_string :: "string option \<Rightarrow> string" where
  "js_string a = (case a of None \<Rightarrow> ''null'' | Some s \<Rightarrow> s)"

definition falsy :: "string option \<Rightarrow> bool" where
  "falsy a = (case a of None \<Rightarrow> True | Some s \<Rightarrow> s = [])"

text \<open>
  Text outside ASCII is written as its UTF-8 bytes: the ohm sign, the check mark, the
  warning sign, and the two Persian labels of part\_000 (``the equation is balanced''
  and ``difference'').
\<close>

definition ohm_sign :: string where
  "ohm_sign = [CHR 0xCE, CHR 0xA9]"

definition check_mark :: string where
  "check_mark = [CHR 0xE2, CHR 0x9C, CHR 0x93]"

definition warning_sign :: string where
  "warning_sign = [CHR 0xE2, CHR 0x9A, CHR 0xA0]"

definition balanced_fa :: string where
  "balanced_fa =
     [CHR 0xD9, CHR 0x85, CHR 0xD8, CHR 0xB9, CHR 0xD8, CHR 0xA7, CHR 0xD8, CHR 0xAF,
      CHR 0xD9, CHR 0x84, CHR 0xD9, CHR 0x87, CHR 0x20, CHR 0xD9, CHR 0x85, CHR 0xD8,
      CHR 0xAA, CHR 0xD8, CHR 0xB9, CHR 0xD8, CHR 0xA7, CHR 0xD8, CHR 0xAF, CHR 0xD9,
      CHR 0x84, CHR 0x20, CHR 0xD8, CHR 0xA7, CHR 0xD8, CHR 0xB3, CHR 0xD8, CHR 0xAA]"

definition difference_fa :: string where
  "difference_fa =
     [CHR 0xD8, CHR 0xAA, CHR 0xD9, CHR 0x81, CHR 0xD8, CHR 0xA7, CHR 0xD9, CHR 0x88,
      CHR 0xD8, CHR 0xAA]"

subsection \<open>Closures, listeners and the world\<close>

text \<open>
  Each calculator's inner functions close over the elements its initialiser looked up.
  The closure's environment is a record of references.
\<close>

record ohm_refs =
  voltageSlider :: nat
  resistanceSlider :: nat
  voltageDisplay :: nat
  resistanceDisplay :: nat
  currentDisplay :: nat

record kcl_refs =
  i1Slider :: nat
  i2Slider :: nat
  i1Display :: nat
  i2Display :: nat
  i3Display :: nat

record kvl_refs =
  sourceVoltageSlider :: nat
  v1Slider :: nat
  v2Slider :: nat
  sourceVoltageDisplay :: nat
  v1Display :: nat
  v2Display :: nat
  voltageSumDisplay :: nat
  validationDisplay :: nat

text \<open>
  The functions handed to \<^verbatim>\<open>addEventListener\<close>, each with what it closes over:
  the click handlers with the two node lists and the clicked element, the calculators'
  handlers with their references. The constructors ending in \<open>_p0\<close> are those of
  part\_000 where they differ from lab.js.
\<close>

datatype listener =
    NavClick "nat list" "nat list" nat
  | ElementTabClick "nat list" "nat list" nat
  | UpdateVoltage ohm_refs
  | UpdateResistance ohm_refs
  | UpdateI1 kcl_refs
  | UpdateI2 kcl_refs
  | UpdateSourceVoltage kvl_refs
  | UpdateV1 kvl_refs
  | UpdateV2 kvl_refs
  | MainNavClick "nat list" "nat list" nat
  | DataNavClick "nat list" "nat list" nat
  | ElementTabClick_p0 "nat list" "nat list" nat
  | UpdateSourceVoltage_p0 kvl_refs
  | UpdateV1_p0 kvl_refs
  | UpdateV2_p0 kvl_refs

datatype level = ConsoleLog | ConsoleWarn | ConsoleError

text \<open>
  What a script can change: the document, the console (each entry a level and the
  arguments of the call), and the registered listeners (element, event type, function).
\<close>

record world =
  document :: "element list"
  console :: "(level \<times> string list) list"
  listeners :: "(nat \<times> string \<times> listener) list"

definition console_log :: "string list \<Rightarrow> world \<Rightarrow> world" where
  "console_log args w = w\<lparr>console := console w @ [(ConsoleLog, args)]\<rparr>"

definition console_warn :: "string list \<Rightarrow> world \<Rightarrow> world" where
  "console_warn args w = w\<lparr>console := console w @ [(ConsoleWarn, args)]\<rparr>"

definition console_error :: "string list \<Rightarrow> world \<Rightarrow> world" where
  "console_error args w = w\<lparr>console := console w @ [(ConsoleError, args)]\<rparr>"

definition addEventListener :: "nat \<Rightarrow> string \<Rightarrow> listener \<Rightarrow> world \<Rightarrow> world" where
  "addEventListener e ev h w = w\<lparr>listeners := listeners w @ [(e, ev, h)]\<rparr>"

subsection \<open>lab.js: navigation\<close>

text \<open>
  The click handler that \<^verbatim>\<open>initNavigation\<close> registers on \<open>button\<close> (lab.js
  38--60). A handler returns the exception it threw, if any, and the world it left.
\<close>

definition initNavigation_click :: "nat list \<Rightarrow> nat list \<Rightarrow> nat \<Rightarrow> world \<Rightarrow> js_error option \<times> world" where
  "initNavigation_click navButtons contentSections button w =
     (let targetSection = getAttribute ''data-section'' button (document w) in
      if falsy targetSection
      then (None, console_error [''No data-section attribute found on button''] w)
      else
        let targetElement = getElementById (js_string targetSection) (document w) in
        if targetElement = None
        then (None, console_error [''Target section not found:'', js_string targetSection] w)
        else
          let d1 = fold (classList_remove ''active'') navButtons (document w);
              d2 = fold (classList_remove ''active'') contentSections d1;
              d3 = classList_add ''active'' button d2
          in case classList_add_ref ''active'' targetElement d3 of
               Inl e \<Rightarrow> (Some e, w\<lparr>document := d3\<rparr>)
             | Inr d4 \<Rightarrow> (None, w\<lparr>document := d4\<rparr>))"

text \<open>\<^verbatim>\<open>initNavigation\<close> (lab.js 20--62).\<close>

definition initNavigation :: "world \<Rightarrow> world" where
  "initNavigation w =
     (let navButtons = querySelectorAll ''nav-btn'' (document w);
          contentSections = querySelectorAll ''content-section'' (document w)
      in if length navButtons = 0 then console_error [''Navigation buttons not found!''] w
         else if length contentSections = 0 then console_error [''Content sections not found!''] w
         else fold (\<lambda>button. addEventListener button ''click''
                      (NavClick navButtons contentSections button)) navButtons w)"

text \<open>The click handler of \<^verbatim>\<open>initElementTabs\<close> in lab.js (347--369).\<close>

definition initElementTabs_click :: "nat list \<Rightarrow> nat list \<Rightarrow> nat \<Rightarrow> world \<Rightarrow> js_error option \<times> world" where
  "initElementTabs_click elementTabs elementPanels tab w =
     (let targetElement = getAttribute ''data-element'' tab (document w) in
      if falsy targetElement
      then (None, console_error [''No data-element attribute found on tab''] w)
      else
        let targetPanel = getElementById (js_string targetElement @ ''-panel'') (document w) in
        if targetPanel = None
        then (None, console_error [''Target panel not found:'', js_string targetElement] w)
        else
          let d1 = fold (classList_remove ''active'') elementTabs (document w);
              d2 = fold (classList_remove ''active'') elementPanels d1;
              d3 = classList_add ''active'' tab d2
          in case classList_add_ref ''active'' targetPanel d3 of
               Inl e \<Rightarrow> (Some e, w\<lparr>document := d3\<rparr>)
             | Inr d4 \<Rightarrow> (None, w\<lparr>document := d4\<rparr>))"

text \<open>\<^verbatim>\<open>initElementTabs\<close> of lab.js (335--371): absent tabs or panels end it silently.\<close>

definition initElementTabs :: "world \<Rightarrow> world" where
  "initElementTabs w =
     (let elementTabs = querySelectorAll ''element-tab'' (document w);
          elementPanels = querySelectorAll ''element-panel'' (document w)
      in if length elementTabs = 0 \<or> length elementPanels = 0 then w
         else fold (\<lambda>tab. addEventListener tab ''click''
                      (ElementTabClick elementTabs elementPanels tab)) elementTabs w)"

subsection \<open>lab.js: the Ohm's law panel\<close>

text \<open>
  The inner functions of \<^verbatim>\<open>initOhmsLaw\<close> (lab.js 105--128); part\_000 has the
  same three bodies (105--122, \<^verbatim>\<open>updateOhmsLawCurrent\<close> being named
  \<^verbatim>\<open>updateCurrent\<close> there).
\<close>

definition updateOhmsLawCurrent :: "(real \<Rightarrow> string) \<Rightarrow> ohm_refs \<Rightarrow> element list \<Rightarrow> element list" where
  "updateOhmsLawCurrent expo r d =
     (let voltage = parseFloat_value (voltageSlider r) d;
          resistance = parseFloat_value (resistanceSlider r) d;
          current = calculateOhmsLaw voltage resistance
      in set_textContent (currentDisplay r) (toFixed_number expo 2 (value_of current) @ '' A'') d)"

definition updateVoltage :: "(real \<Rightarrow> string) \<Rightarrow> ohm_refs \<Rightarrow> element list \<Rightarrow> element list" where
  "updateVoltage expo r d =
     (let voltage = parseFloat_value (voltageSlider r) d;
          d1 = set_textContent (voltageDisplay r) (toFixed_number expo 1 voltage @ '' V'') d
      in updateOhmsLawCurrent expo r d1)"

definition updateResistance :: "(real \<Rightarrow> string) \<Rightarrow> ohm_refs \<Rightarrow> element list \<Rightarrow> element list" where
  "updateResistance expo r d =
     (let resistance = parseFloat_value (resistanceSlider r) d;
          d1 = set_textContent (resistanceDisplay r) (toFixed_number expo 1 resistance @ '' '' @ ohm_sign) d
      in updateOhmsLawCurrent expo r d1)"

text \<open>\<^verbatim>\<open>initOhmsLaw\<close> (lab.js 87--138).\<close>

definition initOhmsLaw :: "(real \<Rightarrow> string) \<Rightarrow> world \<Rightarrow> world" where
  "initOhmsLaw expo w =
     (let voltageSlider = getElementById ''voltage'' (document w);
          resistanceSlider = getElementById ''resistance'' (document w);
          voltageDisplay = getElementById ''voltage-value'' (document w);
          resistanceDisplay = getElementById ''resistance-value'' (document w);
          currentDisplay = getElementById ''current-value'' (document w)
      in if voltageSlider = None \<or> resistanceSlider = None \<or> voltageDisplay = None \<or>
            resistanceDisplay = None \<or> currentDisplay = None
         then console_warn [''Ohm's Law elements not found, skipping initialization''] w
         else
           let r = \<lparr>voltageSlider = the voltageSlider, resistanceSlider = the resistanceSlider,
                    voltageDisplay = the voltageDisplay, resistanceDisplay = the resistanceDisplay,
                    currentDisplay = the currentDisplay\<rparr>;
               w1 = addEventListener (the voltageSlider) ''input'' (UpdateVoltage r) w;
               w2 = addEventListener (the resistanceSlider) ''input'' (UpdateResistance r) w1;
               d1 = updateVoltage expo r (document w2);
               d2 = updateResistance expo r d1;
               d3 = updateOhmsLawCurrent expo r d2
           in w2\<lparr>document := d3\<rparr>)"

subsection \<open>lab.js: the KCL panel\<close>

text \<open>The inner functions of \<^verbatim>\<open>initKCL\<close> (lab.js 176--199; part\_000 151--168 alike).\<close>

definition updateKCLCurrent :: "(real \<Rightarrow> string) \<Rightarrow> kcl_refs \<Rightarrow> element list \<Rightarrow> element list" where
  "updateKCLCurrent expo r d =
     (let i1 = parseFloat_value (i1Slider r) d;
          i2 = parseFloat_value (i2Slider r) d;
          i3 = calculateKCL i1 i2
      in set_textContent (i3Display r) (toFixed_number expo 2 i3 @ '' A'') d)"

definition updateI1 :: "(real \<Rightarrow> string) \<Rightarrow> kcl_refs \<Rightarrow> element list \<Rightarrow> element list" where
  "updateI1 expo r d =
     (let i1 = parseFloat_value (i1Slider r) d;
          d1 = set_textContent (i1Display r) (toFixed_number expo 1 i1 @ '' A'') d
      in updateKCLCurrent expo r d1)"

definition updateI2 :: "(real \<Rightarrow> string) \<Rightarrow> kcl_refs \<Rightarrow> element list \<Rightarrow> element list" where
  "updateI2 expo r d =
     (let i2 = parseFloat_value (i2Slider r) d;
          d1 = set_textContent (i2Display r) (toFixed_number expo 1 i2 @ '' A'') d
      in updateKCLCurrent expo r d1)"

text \<open>\<^verbatim>\<open>initKCL\<close> (lab.js 159--209).\<close>

definition initKCL :: "(real \<Rightarrow> string) \<Rightarrow> world \<Rightarrow> world" where
  "initKCL expo w =
     (let i1Slider = getElementById ''i1'' (document w);
          i2Slider = getElementById ''i2'' (document w);
          i1Display = getElementById ''i1-value'' (document w);
          i2Display = getElementById ''i2-value'' (document w);
          i3Display = getElementById ''i3-value'' (document w)
      in if i1Slider = None \<or> i2Slider = None \<or> i1Display = None \<or> i2Display = None \<or>
            i3Display = None
         then console_warn [''KCL elements not found, skipping initialization''] w
         else
           let r = \<lparr>i1Slider = the i1Slider, i2Slider = the i2Slider,
                    i1Display = the i1Display, i2Display = the i2Display,
                    i3Display = the i3Display\<rparr>;
               w1 = addEventListener (the i1Slider) ''input'' (UpdateI1 r) w;
               w2 = addEventListener (the i2Slider) ''input'' (UpdateI2 r) w1;
               d1 = updateI1 expo r (document w2);
               d2 = updateI2 expo r d1;
               d3 = updateKCLCurrent expo r d2
           in w2\<lparr>document := d3\<rparr>)"

subsection \<open>lab.js: the KVL panel\<close>

text \<open>\<^verbatim>\<open>validateKVL\<close> (lab.js 291--309).\<close>

definition validateKVL :: "(real \<Rightarrow> string) \<Rightarrow> kvl_refs \<Rightarrow> element list \<Rightarrow> element list" where
  "validateKVL expo r d =
     (let sourceVoltage = parseFloat_value (sourceVoltageSlider r) d;
          v1 = parseFloat_value (v1Slider r) d;
          v2 = parseFloat_value (v2Slider r) d;
          voltageSum = calculateKVL v1 v2;
          d1 = set_textContent (voltageSumDisplay r) (toFixed_number expo 2 voltageSum @ '' V'') d
      in if isKVLBalanced sourceVoltage voltageSum
         then
           let d2 = set_textContent (validationDisplay r)
                      (check_mark @ '' Equation is balanced'') d1
           in set_color (validationDisplay r) ''#4ade80'' d2
         else
           let difference = js_abs (js_sub sourceVoltage voltageSum);
               d2 = set_textContent (validationDisplay r)
                      (warning_sign @ '' Difference: '' @ toFixed_number expo 2 difference @ '' V'') d1
           in set_color (validationDisplay r) ''#fbbf24'' d2)"

text \<open>The other inner functions of \<^verbatim>\<open>initKVL\<close> (lab.js 264--286).\<close>

definition updateSourceVoltage :: "(real \<Rightarrow> string) \<Rightarrow> kvl_refs \<Rightarrow> element list \<Rightarrow> element list" where
  "updateSourceVoltage expo r d =
     (let sourceVoltage = parseFloat_value (sourceVoltageSlider r) d;
          d1 = set_textContent (sourceVoltageDisplay r) (toFixed_number expo 1 sourceVoltage @ '' V'') d
      in validateKVL expo r d1)"

definition updateV1 :: "(real \<Rightarrow> string) \<Rightarrow> kvl_refs \<Rightarrow> element list \<Rightarrow> element list" where
  "updateV1 expo r d =
     (let v1 = parseFloat_value (v1Slider r) d;
          d1 = set_textContent (v1Display r) (toFixed_number expo 1 v1 @ '' V'') d
      in validateKVL expo r d1)"

definition updateV2 :: "(real \<Rightarrow> string) \<Rightarrow> kvl_refs \<Rightarrow> element list \<Rightarrow> element list" where
  "updateV2 expo r d =
     (let v2 = parseFloat_value (v2Slider r) d;
          d1 = set_textContent (v2Display r) (toFixed_number expo 1 v2 @ '' V'') d
      in validateKVL expo r d1)"

text \<open>\<^verbatim>\<open>initKVL\<close> (lab.js 242--321).\<close>

definition initKVL :: "(real \<Rightarrow> string) \<Rightarrow> world \<Rightarrow> world" where
  "initKVL expo w =
     (let sourceVoltageSlider = getElementById ''source-voltage'' (document w);
          v1Slider = getElementById ''v1'' (document w);
          v2Slider = getElementById ''v2'' (document w);
          sourceVoltageDisplay = getElementById ''source-voltage-value'' (document w);
          v1Display = getElementById ''v1-value'' (document w);
          v2Display = getElementById ''v2-value'' (document w);
          voltageSumDisplay = getElementById ''voltage-sum-value'' (document w);
          validationDisplay = getElementById ''kvl-validation'' (document w)
      in if sourceVoltageSlider = None \<or> v1Slider = None \<or> v2Slider = None \<or>
            sourceVoltageDisplay = None \<or> v1Display = None \<or> v2Display = None \<or>
            voltageSumDisplay = None \<or> validationDisplay = None
         then console_warn [''KVL elements not found, skipping initialization''] w
         else
           let r = \<lparr>sourceVoltageSlider = the sourceVoltageSlider, v1Slider = the v1Slider,
                    v2Slider = the v2Slider, sourceVoltageDisplay = the sourceVoltageDisplay,
                    v1Display = the v1Display, v2Display = the v2Display,
                    voltageSumDisplay = the voltageSumDisplay,
                    validationDisplay = the validationDisplay\<rparr>;
               w1 = addEventListener (the sourceVoltageSlider) ''input'' (UpdateSourceVoltage r) w;
               w2 = addEventListener (the v1Slider) ''input'' (UpdateV1 r) w1;
               w3 = addEventListener (the v2Slider) ''input'' (UpdateV2 r) w2;
               d1 = updateSourceVoltage expo r (document w3);
               d2 = updateV1 expo r d1;
               d3 = updateV2 expo r d2;
               d4 = validateKVL expo r d3
           in w3\<lparr>document := d4\<rparr>)"

text \<open>\<^verbatim>\<open>initApp\<close> of lab.js (381--394), run on \<^verbatim>\<open>DOMContentLoaded\<close>.\<close>

definition initApp :: "(real \<Rightarrow> string) \<Rightarrow> world \<Rightarrow> world" where
  "initApp expo w =
     (let w1 = initNavigation w;
          w2 = initElementTabs w1;
          w3 = initOhmsLaw expo w2;
          w4 = initKCL expo w3;
          w5 = initKVL expo w4
      in console_log [''Electrical Circuit Laws application initialized successfully!''] w5)"

subsection \<open>part\_000: navigation\<close>

text \<open>
  The click handler of \<^verbatim>\<open>initMainNavigation\<close> (part\_000 15--26). It looks the
  target up after the marks are cleared and uses the result unchecked.
  (\<^verbatim>\<open>e.preventDefault()\<close> changes nothing of the world.)
\<close>

definition initMainNavigation_click :: "nat list \<Rightarrow> nat list \<Rightarrow> nat \<Rightarrow> world \<Rightarrow> js_error option \<times> world" where
  "initMainNavigation_click navLinks contentSections link w =
     (let targetSection = getAttribute ''data-section'' link (document w);
          d1 = fold (classList_remove ''active'') navLinks (document w);
          d2 = fold (classList_remove ''active'') contentSections d1;
          d3 = classList_add ''active'' link d2
      in case classList_add_ref ''active'' (getElementById (js_string targetSection) d3) d3 of
           Inl e \<Rightarrow> (Some e, w\<lparr>document := d3\<rparr>)
         | Inr d4 \<Rightarrow> (None, w\<lparr>document := d4\<rparr>))"

text \<open>\<^verbatim>\<open>initMainNavigation\<close> (part\_000 10--28).\<close>

definition initMainNavigation :: "world \<Rightarrow> world" where
  "initMainNavigation w =
     (let navLinks = querySelectorAll ''nav-link'' (document w);
          contentSections = querySelectorAll ''content-section'' (document w)
      in fold (\<lambda>link. addEventListener link ''click''
                 (MainNavClick navLinks contentSections link)) navLinks w)"

text \<open>The click handler of \<^verbatim>\<open>initDataNavigation\<close> (part\_000 39--52).\<close>

definition initDataNavigation_click :: "nat list \<Rightarrow> nat list \<Rightarrow> nat \<Rightarrow> world \<Rightarrow> js_error option \<times> world" where
  "initDataNavigation_click dataNavButtons dataSubsections button w =
     (let targetSubsection = getAttribute ''data-subsection'' button (document w);
          d1 = fold (classList_remove ''active'') dataNavButtons (document w);
          d2 = fold (classList_remove ''active'') dataSubsections d1;
          d3 = classList_add ''active'' button d2;
          targetElement = getElementById (js_string targetSubsection @ ''-subsection'') d3
      in if targetElement \<noteq> None
         then case classList_add_ref ''active'' targetElement d3 of
                Inl e \<Rightarrow> (Some e, w\<lparr>document := d3\<rparr>)
              | Inr d4 \<Rightarrow> (None, w\<lparr>document := d4\<rparr>)
         else (None, w\<lparr>document := d3\<rparr>))"

text \<open>\<^verbatim>\<open>initDataNavigation\<close> (part\_000 34--54).\<close>

definition initDataNavigation :: "world \<Rightarrow> world" where
  "initDataNavigation w =
     (let dataNavButtons = querySelectorAll ''data-nav-btn'' (document w);
          dataSubsections = querySelectorAll ''data-subsection'' (document w)
      in fold (\<lambda>button. addEventListener button ''click''
                 (DataNavClick dataNavButtons dataSubsections button)) dataNavButtons w)"

text \<open>The click handler of \<^verbatim>\<open>initElementTabs\<close> in part\_000 (65--80): it logs nothing.\<close>

definition initElementTabs_click_p0 :: "nat list \<Rightarrow> nat list \<Rightarrow> nat \<Rightarrow> world \<Rightarrow> js_error option \<times> world" where
  "initElementTabs_click_p0 elementTabs elementPanels tab w =
     (let targetElement = getAttribute ''data-element'' tab (document w) in
      if falsy targetElement then (None, w)
      else
        let targetPanel = getElementById (js_string targetElement @ ''-panel'') (document w) in
        if targetPanel = None then (None, w)
        else
          let d1 = fold (classList_remove ''active'') elementTabs (document w);
              d2 = fold (classList_remove ''active'') elementPanels d1;
              d3 = classList_add ''active'' tab d2
          in case classList_add_ref ''active'' targetPanel d3 of
               Inl e \<Rightarrow> (Some e, w\<lparr>document := d3\<rparr>)
             | Inr d4 \<Rightarrow> (None, w\<lparr>document := d4\<rparr>))"

text \<open>\<^verbatim>\<open>initElementTabs\<close> of part\_000 (60--82).\<close>

definition initElementTabs_p0 :: "world \<Rightarrow> world" where
  "initElementTabs_p0 w =
     (let elementTabs = querySelectorAll ''element-tab'' (document w);
          elementPanels = querySelectorAll ''element-panel'' (document w)
      in fold (\<lambda>tab. addEventListener tab ''click''
                 (ElementTabClick_p0 elementTabs elementPanels tab)) elementTabs w)"

subsection \<open>part\_000: the calculators\<close>

text \<open>
  \<^verbatim>\<open>initOhmsLaw\<close> (part\_000 93--130) and \<^verbatim>\<open>initKCL\<close> (140--176): as in
  lab.js, but a missing element ends them without a message.
\<close>

definition initOhmsLaw_p0 :: "(real \<Rightarrow> string) \<Rightarrow> world \<Rightarrow> world" where
  "initOhmsLaw_p0 expo w =
     (let voltageSlider = getElementById ''voltage'' (document w);
          resistanceSlider = getElementById ''resistance'' (document w);
          voltageDisplay = getElementById ''voltage-value'' (document w);
          resistanceDisplay = getElementById ''resistance-value'' (document w);
          currentDisplay = getElementById ''current-value'' (document w)
      in if voltageSlider = None \<or> resistanceSlider = None \<or> voltageDisplay = None \<or>
            resistanceDisplay = None \<or> currentDisplay = None
         then w
         else
           let r = \<lparr>voltageSlider = the voltageSlider, resistanceSlider = the resistanceSlider,
                    voltageDisplay = the voltageDisplay, resistanceDisplay = the resistanceDisplay,
                    currentDisplay = the currentDisplay\<rparr>;
               w1 = addEventListener (the voltageSlider) ''input'' (UpdateVoltage r) w;
               w2 = addEventListener (the resistanceSlider) ''input'' (UpdateResistance r) w1;
               d1 = updateVoltage expo r (document w2);
               d2 = updateResistance expo r d1;
               d3 = updateOhmsLawCurrent expo r d2
           in w2\<lparr>document := d3\<rparr>)"

definition initKCL_p0 :: "(real \<Rightarrow> string) \<Rightarrow> world \<Rightarrow> world" where
  "initKCL_p0 expo w =
     (let i1Slider = getElementById ''i1'' (document w);
          i2Slider = getElementById ''i2'' (document w);
          i1Display = getElementById ''i1-value'' (document w);
          i2Display = getElementById ''i2-value'' (document w);
          i3Display = getElementById ''i3-value'' (document w)
      in if i1Slider = None \<or> i2Slider = None \<or> i1Display = None \<or> i2Display = None \<or>
            i3Display = None
         then w
         else
           let r = \<lparr>i1Slider = the i1Slider, i2Slider = the i2Slider,
                    i1Display = the i1Display, i2Display = the i2Display,
                    i3Display = the i3Display\<rparr>;
               w1 = addEventListener (the i1Slider) ''input'' (UpdateI1 r) w;
               w2 = addEventListener (the i2Slider) ''input'' (UpdateI2 r) w1;
               d1 = updateI1 expo r (document w2);
               d2 = updateI2 expo r d1;
               d3 = updateKCLCurrent expo r d2
           in w2\<lparr>document := d3\<rparr>)"

text \<open>\<^verbatim>\<open>validateKVL\<close> of part\_000 (225--241): the messages are Persian.\<close>

definition validateKVL_p0 :: "(real \<Rightarrow> string) \<Rightarrow> kvl_refs \<Rightarrow> element list \<Rightarrow> element list" where
  "validateKVL_p0 expo r d =
     (let sourceVoltage = parseFloat_value (sourceVoltageSlider r) d;
          v1 = parseFloat_value (v1Slider r) d;
          v2 = parseFloat_value (v2Slider r) d;
          voltageSum = calculateKVL v1 v2;
          d1 = set_textContent (voltageSumDisplay r) (toFixed_number expo 2 voltageSum @ '' V'') d
      in if isKVLBalanced sourceVoltage voltageSum
         then
           let d2 = set_textContent (validationDisplay r) (check_mark @ '' '' @ balanced_fa) d1
           in set_color (validationDisplay r) ''#4ade80'' d2
         else
           let difference = js_abs (js_sub sourceVoltage voltageSum);
               d2 = set_textContent (validationDisplay r)
                      (warning_sign @ '' '' @ difference_fa @ '': '' @
                       toFixed_number expo 2 difference @ '' V'') d1
           in set_color (validationDisplay r) ''#fbbf24'' d2)"

definition updateSourceVoltage_p0 :: "(real \<Rightarrow> string) \<Rightarrow> kvl_refs \<Rightarrow> element list \<Rightarrow> element list" where
  "updateSourceVoltage_p0 expo r d =
     (let sourceVoltage = parseFloat_value (sourceVoltageSlider r) d;
          d1 = set_textContent (sourceVoltageDisplay r) (toFixed_number expo 1 sourceVoltage @ '' V'') d
      in validateKVL_p0 expo r d1)"

definition updateV1_p0 :: "(real \<Rightarrow> string) \<Rightarrow> kvl_refs \<Rightarrow> element list \<Rightarrow> element list" where
  "updateV1_p0 expo r d =
     (let v1 = parseFloat_value (v1Slider r) d;
          d1 = set_textContent (v1Display r) (toFixed_number expo 1 v1 @ '' V'') d
      in validateKVL_p0 expo r d1)"

definition updateV2_p0 :: "(real \<Rightarrow> string) \<Rightarrow> kvl_refs \<Rightarrow> element list \<Rightarrow> element list" where
  "updateV2_p0 expo r d =
     (let v2 = parseFloat_value (v2Slider r) d;
          d1 = set_textContent (v2Display r) (toFixed_number expo 1 v2 @ '' V'') d
      in validateKVL_p0 expo r d1)"

text \<open>\<^verbatim>\<open>initKVL\<close> of part\_000 (191--251).\<close>

definition initKVL_p0 :: "(real \<Rightarrow> string) \<Rightarrow> world \<Rightarrow> world" where
  "initKVL_p0 expo w =
     (let sourceVoltageSlider = getElementById ''source-voltage'' (document w);
          v1Slider = getElementById ''v1'' (document w);
          v2Slider = getElementById ''v2'' (document w);
          sourceVoltageDisplay = getElementById ''source-voltage-value'' (document w);
          v1Display = getElementById ''v1-value'' (document w);
          v2Display = getElementById ''v2-value'' (document w);
          voltageSumDisplay = getElementById ''voltage-sum-value'' (document w);
          validationDisplay = getElementById ''kvl-validation'' (document w)
      in if sourceVoltageSlider = None \<or> v1Slider = None \<or> v2Slider = None \<or>
            sourceVoltageDisplay = None \<or> v1Display = None \<or> v2Display = None \<or>
            voltageSumDisplay = None \<or> validationDisplay = None
         then w
         else
           let r = \<lparr>sourceVoltageSlider = the sourceVoltageSlider, v1Slider = the v1Slider,
                    v2Slider = the v2Slider, sourceVoltageDisplay = the sourceVoltageDisplay,
                    v1Display = the v1Display, v2Display = the v2Display,
                    voltageSumDisplay = the voltageSumDisplay,
                    validationDisplay = the validationDisplay\<rparr>;
               w1 = addEventListener (the sourceVoltageSlider) ''input'' (UpdateSourceVoltage_p0 r) w;
               w2 = addEventListener (the v1Slider) ''input'' (UpdateV1_p0 r) w1;
               w3 = addEventListener (the v2Slider) ''input'' (UpdateV2_p0 r) w2;
               d1 = updateSourceVoltage_p0 expo r (document w3);
               d2 = updateV1_p0 expo r d1;
               d3 = updateV2_p0 expo r d2;
               d4 = validateKVL_p0 expo r d3
           in w3\<lparr>document := d4\<rparr>)"

text \<open>\<^verbatim>\<open>initApp\<close> of part\_000 (257--269).\<close>

definition initApp_p0 :: "(real \<Rightarrow> string) \<Rightarrow> world \<Rightarrow> world" where
  "initApp_p0 expo w =
     (let w1 = initMainNavigation w;
          w2 = initDataNavigation w1;
          w3 = initElementTabs_p0 w2;
          w4 = initOhmsLaw_p0 expo w3;
          w5 = initKCL_p0 expo w4;
          w6 = initKVL_p0 expo w5
      in console_log [''Electrical Circuits platform initialized successfully!''] w6)"

subsection \<open>Events\<close>

text \<open>
  An event on an element runs the listener registered for it. The calculators' listeners
  cannot throw: they touch only the references their initialiser checked.
\<close>

definition fire :: "(real \<Rightarrow> string) \<Rightarrow> listener \<Rightarrow> world \<Rightarrow> js_error option \<times> world" where
  "fire expo h w =
     (case h of
        NavClick bs ss b \<Rightarrow> initNavigation_click bs ss b w
      | ElementTabClick ts ps t \<Rightarrow> initElementTabs_click ts ps t w
      | UpdateVoltage r \<Rightarrow> (None, w\<lparr>document := updateVoltage expo r (document w)\<rparr>)
      | UpdateResistance r \<Rightarrow> (None, w\<lparr>document := updateResistance expo r (document w)\<rparr>)
      | UpdateI1 r \<Rightarrow> (None, w\<lparr>document := updateI1 expo r (document w)\<rparr>)
      | UpdateI2 r \<Rightarrow> (None, w\<lparr>document := updateI2 expo r (document w)\<rparr>)
      | UpdateSourceVoltage r \<Rightarrow> (None, w\<lparr>document := updateSourceVoltage expo r (document w)\<rparr>)
      | UpdateV1 r \<Rightarrow> (None, w\<lparr>document := updateV1 expo r (document w)\<rparr>)
      | UpdateV2 r \<Rightarrow> (None, w\<lparr>document := updateV2 expo r (document w)\<rparr>)
      | MainNavClick ls ss l \<Rightarrow> initMainNavigation_click ls ss l w
      | DataNavClick bs ss b \<Rightarrow> initDataNavigation_click bs ss b w
      | ElementTabClick_p0 ts ps t \<Rightarrow> initElementTabs_click_p0 ts ps t w
      | UpdateSourceVoltage_p0 r \<Rightarrow> (None, w\<lparr>document := updateSourceVoltage_p0 expo r (document w)\<rparr>)
      | UpdateV1_p0 r \<Rightarrow> (None, w\<lparr>document := updateV1_p0 expo r (document w)\<rparr>)
      | UpdateV2_p0 r \<Rightarrow> (None, w\<lparr>document := updateV2_p0 expo r (document w)\<rparr>))"

subsection \<open>Vocabulary of the properties\<close>

text \<open>
  A node list is a list of distinct references into the document, as
  \<^verbatim>\<open>querySelectorAll\<close> returns one. \<open>active_among d xs\<close> are the members of
  \<open>xs\<close> that carry the class \<^verbatim>\<open>active\<close>.
\<close>

definition node_list :: "element list \<Rightarrow> nat list \<Rightarrow> bool" where
  "node_list d xs \<longleftrightarrow> distinct xs \<and> (\<forall>k\<in>set xs. k < length d)"

definition active_among :: "element list \<Rightarrow> nat list \<Rightarrow> nat list" where
  "active_among d xs = filter (\<lambda>k. ''active'' \<in> classes (d ! k)) xs"

text \<open>
  The outcome of a click: no exception, and among the selectors \<open>bs\<close> exactly \<open>b\<close>,
  among the sections \<open>ss\<close> exactly \<open>t\<close> is active.
\<close>

definition marks_exactly :: "nat list \<Rightarrow> nat list \<Rightarrow> nat \<Rightarrow> nat \<Rightarrow> js_error option \<times> world \<Rightarrow> bool" where
  "marks_exactly bs ss b t res \<longleftrightarrow>
     fst res = None \<and> active_among (document (snd res)) bs = [b] \<and>
     active_among (document (snd res)) ss = [t]"

text \<open>
  An early return with a message: no exception, the document and the listeners as they
  were, and one more console entry, a warning or an error.
\<close>

definition logged_early_return :: "world \<Rightarrow> js_error option \<times> world \<Rightarrow> bool" where
  "logged_early_return w res \<longleftrightarrow>
     fst res = None \<and> document (snd res) = document w \<and> listeners (snd res) = listeners w \<and>
     console (snd res) \<noteq> [] \<and> butlast (console (snd res)) = console w \<and>
     fst (last (console (snd res))) \<noteq> ConsoleLog"

text \<open>The identifiers each calculator's initialiser looks up.\<close>

definition ohm_ids :: "string list" where
  "ohm_ids = [''voltage'', ''resistance'', ''voltage-value'', ''resistance-value'', ''current-value'']"

definition kcl_ids :: "string list" where
  "kcl_ids = [''i1'', ''i2'', ''i1-value'', ''i2-value'', ''i3-value'']"

definition kvl_ids :: "string list" where
  "kvl_ids = [''source-voltage'', ''v1'', ''v2'', ''source-voltage-value'', ''v1-value'',
     ''v2-value'', ''voltage-sum-value'', ''kvl-validation'']"

subsection \<open>Example pages\<close>

text \<open>
  Concrete markup to run the scripts on: the elements of an Ohm's law panel and of a KVL
  panel with given slider positions, a page for lab.js and a page for part\_000. On both
  pages the first selector of each group and its section start active, and the last
  selector of each group names a target that does not exist.
\<close>

definition blank :: element where
  "blank = \<lparr>ident = None, classes = {}, attrs = (\<lambda>_. None), val = 0, textContent = [], color = []\<rparr>"

definition page_world :: "element list \<Rightarrow> world" where
  "page_world d = \<lparr>document = d, console = [], listeners = []\<rparr>"

definition ohm_page :: "real \<Rightarrow> real \<Rightarrow> element list" where
  "ohm_page v r =
     [blank\<lparr>ident := Some ''voltage'', val := v\<rparr>,
      blank\<lparr>ident := Some ''resistance'', val := r\<rparr>,
      blank\<lparr>ident := Some ''voltage-value''\<rparr>,
      blank\<lparr>ident := Some ''resistance-value''\<rparr>,
      blank\<lparr>ident := Some ''current-value''\<rparr>]"

definition kvl_page :: "real \<Rightarrow> real \<Rightarrow> real \<Rightarrow> element list" where
  "kvl_page s v1 v2 =
     [blank\<lparr>ident := Some ''source-voltage'', val := s\<rparr>,
      blank\<lparr>ident := Some ''v1'', val := v1\<rparr>,
      blank\<lparr>ident := Some ''v2'', val := v2\<rparr>,
      blank\<lparr>ident := Some ''source-voltage-value''\<rparr>,
      blank\<lparr>ident := Some ''v1-value''\<rparr>,
      blank\<lparr>ident := Some ''v2-value''\<rparr>,
      blank\<lparr>ident := Some ''voltage-sum-value''\<rparr>,
      blank\<lparr>ident := Some ''kvl-validation''\<rparr>]"

text \<open>The references \<^verbatim>\<open>initKVL\<close> finds on \<open>kvl_page\<close>.\<close>

definition kvl_refs0 :: kvl_refs where
  "kvl_refs0 = \<lparr>sourceVoltageSlider = 0, v1Slider = 1, v2Slider = 2, sourceVoltageDisplay = 3,
     v1Display = 4, v2Display = 5, voltageSumDisplay = 6, validationDisplay = 7\<rparr>"

definition selector :: "string \<Rightarrow> bool \<Rightarrow> string \<Rightarrow> string \<Rightarrow> element" where
  "selector cls act attr target =
     blank\<lparr>classes := (if act then {cls, ''active''} else {cls}),
           attrs := (\<lambda>n. if n = attr then Some target else None)\<rparr>"

definition section_of :: "string \<Rightarrow> bool \<Rightarrow> string \<Rightarrow> element" where
  "section_of cls act i =
     blank\<lparr>ident := Some i, classes := (if act then {cls, ''active''} else {cls})\<rparr>"

definition lab_page :: "element list" where
  "lab_page =
     [selector ''nav-btn'' True ''data-section'' ''ohms-law'',
      selector ''nav-btn'' False ''data-section'' ''kcl'',
      selector ''nav-btn'' False ''data-section'' ''power'',
      section_of ''content-section'' True ''ohms-law'',
      section_of ''content-section'' False ''kcl'',
      selector ''element-tab'' True ''data-element'' ''resistor'',
      selector ''element-tab'' False ''data-element'' ''capacitor'',
      selector ''element-tab'' False ''data-element'' ''diode'',
      section_of ''element-panel'' True ''resistor-panel'',
      section_of ''element-panel'' False ''capacitor-panel'']"

definition platform_page :: "element list" where
  "platform_page =
     [selector ''nav-link'' True ''data-section'' ''home'',
      selector ''nav-link'' False ''data-section'' ''data'',
      selector ''nav-link'' False ''data-section'' ''about'',
      section_of ''content-section'' True ''home'',
      section_of ''content-section'' False ''data'',
      selector ''data-nav-btn'' True ''data-subsection'' ''theory'',
      selector ''data-nav-btn'' False ''data-subsection'' ''formulas'',
      selector ''data-nav-btn'' False ''data-subsection'' ''lab'',
      section_of ''data-subsection'' True ''theory-subsection'',
      section_of ''data-subsection'' False ''formulas-subsection'',
      selector ''element-tab'' True ''data-element'' ''resistor'',
      selector ''element-tab'' False ''data-element'' ''capacitor'',
      selector ''element-tab'' False ''data-element'' ''diode'',
      section_of ''element-panel'' True ''resistor-panel'',
      section_of ''element-panel'' False ''capacitor-panel'']"


section \<open>Rounding: basic facts\<close>

lemma finite_binades:
  "finite (insert (- 1022) (Set.filter (\<lambda>e. 2 powi e \<le> a) {- 1022..1023}))"
  by (auto intro: finite_subset[of _ "{- 1022..1023}"])

lemma binade_eq:
  assumes "- 1022 \<le> e" and "e \<le> 1023" and "2 powi e \<le> a"
    and "e = 1023 \<or> a < 2 powi (e + 1)"
  shows "binade a = e"
  unfolding binade_def
proof (rule Max_eqI[OF finite_binades])
  show "e \<in> insert (- 1022) (Set.filter (\<lambda>e. 2 powi e \<le> a) {- 1022..1023})"
    using assms by simp
  fix y assume "y \<in> insert (- 1022) (Set.filter (\<lambda>e. 2 powi e \<le> a) {- 1022..1023})"
  then consider "y = - 1022" | "y \<le> 1023" "(2::real) powi y \<le> a" by auto
  then show "y \<le> e"
  proof cases
    case 1
    then show ?thesis using assms by simp
  next
    case 2
    show ?thesis
    proof (cases "e = 1023")
      case True
      then show ?thesis using 2 by simp
    next
      case False
      with assms 2 have "(2::real) powi y < 2 powi (e + 1)" by simp
      then have "y < e + 1"
        by (metis linorder_not_less power_int_increasing one_le_numeral)
      then show ?thesis by simp
    qed
  qed
qed

lemma binade_subnormal:
  assumes "a < 2 powi (- 1022)"
  shows "binade a = - 1022"
  unfolding binade_def
proof (rule Max_eqI[OF finite_binades])
  show "- 1022 \<in> insert (- 1022) (Set.filter (\<lambda>e. 2 powi e \<le> a) {- 1022..1023})" by simp
  fix y assume "y \<in> insert (- 1022) (Set.filter (\<lambda>e. 2 powi e \<le> a) {- 1022..1023})"
  then consider "y = - 1022" | "- 1022 \<le> y" "(2::real) powi y \<le> a" by auto
  then show "y \<le> - 1022"
  proof cases
    case 1
    then show ?thesis by simp
  next
    case 2
    have "(2::real) powi (- 1022) \<le> 2 powi y"
      using 2(1) by (intro power_int_increasing) auto
    with 2 assms show ?thesis by linarith
  qed
qed

text \<open>Rounding a number whose binade is known.\<close>

lemma round64_at:
  assumes "- 1022 \<le> e" and "e \<le> 1023" and "2 powi e \<le> \<bar>x\<bar>"
    and "e = 1023 \<or> \<bar>x\<bar> < 2 powi (e + 1)"
  shows "round64 x =
     (let r = of_int (round_half_even (\<bar>x\<bar> / 2 powi (e - 52))) * 2 powi (e - 52)
      in if 2 powi 1024 \<le> r then (if 0 < x then PosInfinity else NegInfinity)
         else Finite (if x < 0 then - r else r))"
proof -
  have b: "binade \<bar>x\<bar> = e" by (rule binade_eq[OF assms])
  show ?thesis unfolding round64_def Let_def b by (rule refl)
qed

lemma round_half_even_of_int [simp]: "round_half_even (of_int m) = m"
  by (simp add: round_half_even_def)

lemma round64_0 [simp]: "round64 0 = Finite 0"
proof -
  have "binade \<bar>0\<bar> = - 1022" by (rule binade_subnormal) simp
  then show ?thesis
    using round_half_even_of_int[of 0] by (simp add: round64_def Let_def del: round_half_even_of_int)
qed

lemma js_add_commute: "js_add a b = js_add b a"
  by (cases a; cases b) (simp_all add: add.commute)

text \<open>Where the exact result is a binary64 number, the operator returns it.\<close>

lemma js_add_exact: "is_double (x + y) \<Longrightarrow> js_add (Finite x) (Finite y) = Finite (x + y)"
  by (simp add: is_double_def)

lemma js_sub_exact: "is_double (x - y) \<Longrightarrow> js_sub (Finite x) (Finite y) = Finite (x - y)"
  by (simp add: is_double_def)

lemma ieee_div_exact:
  "y \<noteq> 0 \<Longrightarrow> is_double (x / y) \<Longrightarrow> ieee_div (Finite x) (Finite y) = Finite (x / y)"
  by (simp add: is_double_def)

text \<open>The tag aside, \<open>js_div\<close> is the operator.\<close>

lemma value_of_js_div: "value_of (js_div a b) = ieee_div a b"
  by (cases a) (simp_all add: js_div_def value_of_def)

text \<open>
  A binary64 number between \<open>2^-7\<close> and \<open>2^-6\<close> is a multiple of \<open>2^-59\<close>. One
  hundredth lies strictly between two neighbouring multiples, and the upper one is the
  tolerance of \<^verbatim>\<open>isKVLBalanced\<close>: no binary64 number separates the two bounds.
\<close>

lemma double_multiple:
  assumes d: "is_double x" and lo: "2 powi (- 7) \<le> \<bar>x\<bar>" and hi: "\<bar>x\<bar> < 2 powi (- 6)"
  shows "\<exists>m::int. \<bar>x\<bar> = of_int m / 2 ^ 59"
proof -
  define m where "m = round_half_even (\<bar>x\<bar> / 2 powi (- 7 - 52))"
  define r where "r = (of_int m :: real) * 2 powi (- 7 - 52)"
  have hi': "- 7 = (1023::int) \<or> \<bar>x\<bar> < 2 powi (- 7 + 1)" using hi by simp
  have "round64 x =
      (if 2 powi 1024 \<le> r then (if 0 < x then PosInfinity else NegInfinity)
       else Finite (if x < 0 then - r else r))"
    using round64_at[of "- 7" x, OF _ _ lo hi'] by (simp add: Let_def m_def r_def)
  with d have "Finite x = Finite (if x < 0 then - r else r)"
    unfolding is_double_def by (auto split: if_splits)
  then have "\<bar>x\<bar> = \<bar>r\<bar>" by (auto split: if_splits)
  moreover have "0 \<le> r"
  proof -
    have "0 \<le> \<bar>x\<bar> / 2 powi (- 7 - 52)" by simp
    then have "0 \<le> m" unfolding m_def round_half_even_def Let_def
      by (auto simp: zero_le_floor intro: add_nonneg_nonneg)
    then show ?thesis unfolding r_def by simp
  qed
  moreover have "(2::real) powi (- 7 - 52) = 1 / 2 ^ 59" by simp
  ultimately have "\<bar>x\<bar> = of_int m / 2 ^ 59"
    by (simp only: r_def abs_of_nonneg mult_1 times_divide_eq_right mult.right_neutral)
  then show ?thesis by blast
qed

lemma double_below_tolerance:
  assumes "is_double x"
  shows "\<bar>x\<bar> < 5764607523034235 / 2 ^ 59 \<longleftrightarrow> \<bar>x\<bar> < 1 / 100"
proof -
  consider "\<bar>x\<bar> < 2 powi (- 7)" | "2 powi (- 7) \<le> \<bar>x\<bar>" "\<bar>x\<bar> < 2 powi (- 6)"
    | "2 powi (- 6) \<le> \<bar>x\<bar>"
    by linarith
  then show ?thesis
  proof cases
    case 1
    then have "\<bar>x\<bar> < 1 / 128" by simp
    then show ?thesis by simp
  next
    case 2
    from double_multiple[OF assms 2] obtain m :: int where m: "\<bar>x\<bar> = of_int m / 2 ^ 59"
      by blast
    have "real_of_int m / 2 ^ 59 < (5764607523034235 / 2 ^ 59 :: real) \<longleftrightarrow> m < 5764607523034235"
      by simp
    moreover have "real_of_int m / 2 ^ 59 < (1 / 100 :: real) \<longleftrightarrow> m < 5764607523034235"
    proof -
      have "real_of_int m / 2 ^ 59 < (1 / 100 :: real) \<longleftrightarrow> real_of_int m * 100 < 2 ^ 59"
        by (simp add: field_simps)
      also have "\<dots> \<longleftrightarrow> real_of_int (m * 100) < real_of_int (2 ^ 59)" by simp
      also have "\<dots> \<longleftrightarrow> m * 100 < 2 ^ 59" by (rule of_int_less_iff)
      also have "\<dots> \<longleftrightarrow> m < 5764607523034235"
      proof -
        have e: "(2::int) ^ 59 = 576460752303423488" by simp
        show ?thesis unfolding e by arith
      qed
      finally show ?thesis .
    qed
    ultimately show ?thesis unfolding m by simp
  next
    case 3
    then have "1 / 64 \<le> \<bar>x\<bar>" by simp
    then show ?thesis by simp
  qed
qed

subsection \<open>Particular numbers\<close>

lemma round64_1: "round64 (1) = Finite (1)"
  by (simp add: round64_at[of 0] round_half_even_def Let_def)

lemma round64_2: "round64 (2) = Finite (2)"
  by (simp add: round64_at[of 1] round_half_even_def Let_def)

lemma round64_3: "round64 (3) = Finite (3)"
  by (simp add: round64_at[of 1] round_half_even_def Let_def)

lemma round64_4: "round64 (4) = Finite (4)"
  by (simp add: round64_at[of 2] round_half_even_def Let_def)

lemma round64_5: "round64 (5) = Finite (5)"
  by (simp add: round64_at[of 2] round_half_even_def Let_def)


lemma round64_7: "round64 (7) = Finite (7)"
  by (simp add: round64_at[of 2] round_half_even_def Let_def)

lemma round64_10: "round64 (10) = Finite (10)"
  by (simp add: round64_at[of 3] round_half_even_def Let_def)


lemma round64_12: "round64 (12) = Finite (12)"
  by (simp add: round64_at[of 3] round_half_even_def Let_def)

lemma round64_20: "round64 (20) = Finite (20)"
  by (simp add: round64_at[of 4] round_half_even_def Let_def)

lemma round64_two53: "round64 (9007199254740992) = Finite (9007199254740992)"
  by (simp add: round64_at[of 53] round_half_even_def Let_def)

lemma round64_two53_plus_1: "round64 (9007199254740993) = Finite (9007199254740992)"
  by (simp add: round64_at[of 53] round_half_even_def Let_def)

lemma round64_hundredth: "round64 (1 / 100) = Finite (5764607523034235 / 576460752303423488)"
  by (simp add: round64_at[of "- 7"] round_half_even_def Let_def)

lemma round64_three_halves: "round64 (3 / 2) = Finite (3 / 2)"
  by (simp add: round64_at[of 0] round_half_even_def Let_def)

lemma round64_three_fortieths: "round64 (3 / 40) = Finite (5404319552844595 / 72057594037927936)"
  by (simp add: round64_at[of "- 4"] round_half_even_def Let_def)




lemma round64_10_009: "round64 (10009 / 1000) = Finite (704320760474239 / 70368744177664)"
  by (simp add: round64_at[of 3] round_half_even_def Let_def)

lemma round64_10_02: "round64 (501 / 50) = Finite (2820379266640773 / 281474976710656)"
  by (simp add: round64_at[of 3] round_half_even_def Let_def)

lemma round64_5em19: "round64 (1 / 2000000000000000000) = Finite (1298074214633707 / 2596148429267413814265248164610048)"
  by (simp add: round64_at[of "- 61"] round_half_even_def Let_def)

lemma round64_tenth: "round64 (1 / 10) = Finite (3602879701896397 / 36028797018963968)"
  by (simp add: round64_at[of "- 4"] round_half_even_def Let_def)

lemma round64_1e308: "round64 (100000000000000000000000000000000000000000000000000000000000000000000000000000000000000000000000000000000000000000000000000000000000000000000000000000000000000000000000000000000000000000000000000000000000000000000000000000000000000000000000000000000000000000000000000000000000000000000000000000000000000000000) = Finite (100000000000000001097906362944045541740492309677311846336810682903157585404911491537163328978494688899061249669721172515611590283743140088328307009198146046031271664502933027185697489699588559043338384466165001178426897626212945177628091195786707458122783970171784415105291802893207873272974885715430223118336)"
  by (simp add: round64_at[of 1023] round_half_even_def Let_def)

lemma round64_fifth: "round64 (1 / 5) = Finite (3602879701896397 / 18014398509481984)"
  by (simp add: round64_at[of "- 3"] round_half_even_def Let_def)

lemma round64_three_tenths: "round64 (3 / 10) = Finite (5404319552844595 / 18014398509481984)"
  by (simp add: round64_at[of "- 2"] round_half_even_def Let_def)

lemma round64_neg_128th: "round64 (- (1 / 128)) = Finite (- (1 / 128))"
  by (simp add: round64_at[of "- 7"] round_half_even_def Let_def)



lemma round64_diff_10_009: "round64 (- (633318697599 / 70368744177664)) = Finite (- (633318697599 / 70368744177664))"
  by (simp add: round64_at[of "- 7"] round_half_even_def Let_def)

lemma round64_diff_10_02: "round64 (- (5629499534213 / 281474976710656)) = Finite (- (5629499534213 / 281474976710656))"
  by (simp add: round64_at[of "- 6"] round_half_even_def Let_def)

lemma round64_diff_hundredth_5em19: "round64 (25961484292674137385010222296853 / 2596148429267413814265248164610048) = Finite (5764607523034235 / 576460752303423488)"
  by (simp add: round64_at[of "- 7"] round_half_even_def Let_def)

lemma round64_sum_tenth_fifth: "round64 (10808639105689191 / 36028797018963968) = Finite (1351079888211149 / 4503599627370496)"
  by (simp add: round64_at[of "- 2"] round_half_even_def Let_def)

lemma round64_sum_1e308: "round64 (200000000000000002195812725888091083480984619354623692673621365806315170809822983074326657956989377798122499339442345031223180567486280176656614018396292092062543329005866054371394979399177118086676768932330002356853795252425890355256182391573414916245567940343568830210583605786415746545949771430860446236672) = PosInfinity"
  by (simp add: round64_at[of 1023] round_half_even_def Let_def)

lemma round64_quot_1e308_tenth: "round64 (3602879701896396839556245496340000315990489549534364482330777901701430316197346480135684103953438693444077223368453939943552201688691692954958471442652324285422689728491842786009333993488764429638279903103391932150353638982258057499669692724779975645072639797375091100842966143158869525682839269636186273906310579240984117248 / 3602879701896397) = PosInfinity"
  by (simp add: round64_at[of 1023] round_half_even_def Let_def)


section \<open>The laws\<close>

text \<open>
  \<^verbatim>\<open>isKVLBalanced\<close> on finite numbers: the difference is rounded, and the bound is
  the binary64 number nearest to one hundredth, \<open>5764607523034235 / 2^59\<close>.
\<close>

lemma isKVLBalanced_finite:
  "isKVLBalanced (Finite S) (Finite D) \<longleftrightarrow>
     (case round64 (S - D) of Finite r \<Rightarrow> \<bar>r\<bar> < 5764607523034235 / 2 ^ 59 | _ \<Rightarrow> False)"
  by (simp add: isKVLBalanced_def round64_hundredth split: number.split)

lemma isKVLBalanced_exact:
  assumes "is_double (S - D)"
  shows "isKVLBalanced (Finite S) (Finite D) \<longleftrightarrow> \<bar>S - D\<bar> < 1 / 100"
proof -
  from assms have "round64 (S - D) = Finite (S - D)" by (simp add: is_double_def)
  then have "isKVLBalanced (Finite S) (Finite D) \<longleftrightarrow> \<bar>S - D\<bar> < 5764607523034235 / 2 ^ 59"
    by (simp only: isKVLBalanced_finite number.case)
  with double_below_tolerance[OF assms] show ?thesis by simp
qed

lemma isKVLBalanced_10_009: "isKVLBalanced (round64 10) (round64 (10009 / 1000))"
proof -
  have e: "(10::real) - 704320760474239 / 70368744177664 = - (633318697599 / 70368744177664)"
    by simp
  have "round64 (10 - 704320760474239 / 70368744177664) = Finite (- (633318697599 / 70368744177664))"
    by (simp only: e round64_diff_10_009)
  then show ?thesis
    by (simp only: round64_10 round64_10_009 isKVLBalanced_finite number.case) simp
qed

lemma isKVLBalanced_10_02: "\<not> isKVLBalanced (round64 10) (round64 (501 / 50))"
proof -
  have e: "(10::real) - 2820379266640773 / 281474976710656 = - (5629499534213 / 281474976710656)"
    by simp
  have "round64 (10 - 2820379266640773 / 281474976710656) = Finite (- (5629499534213 / 281474976710656))"
    by (simp only: e round64_diff_10_02)
  then show ?thesis
    by (simp only: round64_10 round64_10_02 isKVLBalanced_finite number.case) simp
qed

text \<open>
  Claim C1, as amended. For all finite numbers \<open>S\<close> and \<open>D\<close>,
  \<^verbatim>\<open>isKVLBalanced(S, D)\<close> is true exactly when the rounded difference is finite
  and below the rounded tolerance \<open>5764607523034235 / 2^59\<close> in absolute value.
  Whenever the difference \<open>S - D\<close> is itself a binary64 number (the subtraction does
  not round), this is \<open>\<bar>S - D\<bar> < 0.01\<close>, the two bounds separating no binary64
  number. With the literals read as binary64 numbers,
  \<^verbatim>\<open>isKVLBalanced(10, 10.009)\<close> holds and \<^verbatim>\<open>isKVLBalanced(10, 10.02)\<close>
  does not.
\<close>

theorem isKVLBalanced_tolerance:
  "(isKVLBalanced (Finite S) (Finite D) \<longleftrightarrow>
      (case round64 (S - D) of Finite r \<Rightarrow> \<bar>r\<bar> < 5764607523034235 / 2 ^ 59 | _ \<Rightarrow> False)) \<and>
   (is_double (S - D) \<longrightarrow> (isKVLBalanced (Finite S) (Finite D) \<longleftrightarrow> \<bar>S - D\<bar> < 1 / 100)) \<and>
   isKVLBalanced (round64 10) (round64 (10009 / 1000)) \<and>
   \<not> isKVLBalanced (round64 10) (round64 (501 / 50))"
  using isKVLBalanced_finite[of S D] isKVLBalanced_exact[of S D]
    isKVLBalanced_10_009 isKVLBalanced_10_02
  by blast

theorem isKVLBalanced_tolerance_witness:
  "is_double (12 - 11) \<and> \<not> isKVLBalanced (Finite 12) (Finite 11) \<and>
   is_double (5 - 641 / 128) \<and> isKVLBalanced (Finite 5) (Finite (641 / 128))"
proof -
  have a: "is_double (12 - 11)"
    by (simp add: is_double_def round64_1)
  have e: "(5::real) - 641 / 128 = - (1 / 128)" by simp
  have b: "is_double (5 - 641 / 128)"
    unfolding e is_double_def by (rule round64_neg_128th)
  from isKVLBalanced_tolerance[of 12 11] a
  have "isKVLBalanced (Finite 12) (Finite 11) \<longleftrightarrow> \<bar>12 - 11\<bar> < (1 / 100 :: real)"
    by blast
  then have c: "\<not> isKVLBalanced (Finite 12) (Finite 11)" by simp
  from isKVLBalanced_tolerance[of 5 "641 / 128"] b
  have "isKVLBalanced (Finite 5) (Finite (641 / 128)) \<longleftrightarrow> \<bar>5 - 641 / 128\<bar> < (1 / 100 :: real)"
    by blast
  then have d: "isKVLBalanced (Finite 5) (Finite (641 / 128))" by simp
  from a b c d show ?thesis by blast
qed

text \<open>
  The claim as stated, with the real difference, fails: \<^verbatim>\<open>0.01\<close> and
  \<^verbatim>\<open>5e-19\<close> denote the two binary64 numbers below, less than one hundredth apart,
  but their difference rounds to \<^verbatim>\<open>0.01\<close> itself, which is not below the
  tolerance: \<^verbatim>\<open>isKVLBalanced(0.01, 5e-19)\<close> is false.
\<close>

theorem isKVLBalanced_real_tolerance_counterexample:
  "round64 (1 / 100) = Finite (5764607523034235 / 2 ^ 59) \<and>
   round64 (5 / 10 ^ 19) = Finite (1298074214633707 / 2 ^ 111) \<and>
   \<bar>5764607523034235 / 2 ^ 59 - 1298074214633707 / 2 ^ 111\<bar> < (1 / 100 :: real) \<and>
   \<not> isKVLBalanced (round64 (1 / 100)) (round64 (5 / 10 ^ 19))"
proof -
  have a: "round64 (1 / 100) = Finite (5764607523034235 / 2 ^ 59)"
    by (simp add: round64_hundredth)
  have b: "round64 (5 / 10 ^ 19) = Finite (1298074214633707 / 2 ^ 111)"
    by (simp add: round64_5em19)
  have c: "\<bar>5764607523034235 / 2 ^ 59 - 1298074214633707 / 2 ^ 111\<bar> < (1 / 100 :: real)"
    by simp
  have e: "(5764607523034235 / 2 ^ 59 - 1298074214633707 / 2 ^ 111 :: real) =
      25961484292674137385010222296853 / 2596148429267413814265248164610048"
    by simp
  have "round64 (5764607523034235 / 2 ^ 59 - 1298074214633707 / 2 ^ 111) =
      Finite (5764607523034235 / 2 ^ 59)"
    by (simp only: e round64_diff_hundredth_5em19) simp
  then have d: "\<not> isKVLBalanced (round64 (1 / 100)) (round64 (5 / 10 ^ 19))"
    by (simp only: a b isKVLBalanced_finite number.case)
  from a b c d show ?thesis by blast
qed

text \<open>
  Claim C3. For every voltage \<open>V\<close>, any number, \<^verbatim>\<open>calculateOhmsLaw(V, 0)\<close>
  returns 0: the guard answers, and its answer is a number, not what the division would
  have given (which for a zero divisor is an infinity or \<^verbatim>\<open>NaN\<close>).
\<close>

theorem calculateOhmsLaw_zero_resistance:
  "calculateOhmsLaw V (Finite 0) = Inr (Finite 0) \<and>
   calculateOhmsLaw V (Finite 0) \<noteq> js_div V (Finite 0)"
  by (simp add: calculateOhmsLaw_def js_div_def)

text \<open>The sum of two finite numbers is rounded once.\<close>

lemma calculateKCL_finite: "calculateKCL (Finite i1) (Finite i2) = round64 (i1 + i2)"
  by (simp add: calculateKCL_def)

lemma calculateKCL_3_4: "calculateKCL (round64 3) (round64 4) = Finite 7"
  by (simp add: calculateKCL_def round64_3 round64_4 round64_7)

text \<open>
  Claim C4, as amended. For all finite currents, \<^verbatim>\<open>calculateKCL(i1, i2)\<close> is the
  binary64 number nearest to \<open>i1 + i2\<close> (an infinity where the sum overflows); it is
  \<open>i1 + i2\<close> whenever that sum is a binary64 number. The operation is commutative on
  all numbers, and \<^verbatim>\<open>calculateKCL(3, 4)\<close> is 7.
\<close>

theorem calculateKCL_sum:
  "calculateKCL (Finite i1) (Finite i2) = round64 (i1 + i2) \<and>
   (is_double (i1 + i2) \<longrightarrow> calculateKCL (Finite i1) (Finite i2) = Finite (i1 + i2)) \<and>
   calculateKCL a b = calculateKCL b a \<and>
   calculateKCL (round64 3) (round64 4) = Finite 7"
  using calculateKCL_finite[of i1 i2] js_add_commute[of a b] calculateKCL_3_4
  by (simp add: is_double_def calculateKCL_def)

theorem calculateKCL_sum_witness:
  "is_double (3 + 4) \<and> calculateKCL (Finite 3) (Finite 4) = Finite (3 + 4)"
proof -
  have a: "is_double (3 + 4)" by (simp add: is_double_def round64_7)
  with calculateKCL_sum[of 3 4] show ?thesis by blast
qed

text \<open>
  The claim as stated, with the real sum, fails: \<open>2^53\<close> and 1 are binary64 numbers
  and \<^verbatim>\<open>calculateKCL(2^53, 1)\<close> is \<open>2^53\<close>; \<^verbatim>\<open>calculateKCL(0.1, 0.2)\<close> is
  not the number \<^verbatim>\<open>0.3\<close>; and \<^verbatim>\<open>calculateKCL(1e308, 1e308)\<close> is infinite.
\<close>

theorem calculateKCL_real_sum_counterexample:
  "round64 (2 ^ 53) = Finite (2 ^ 53) \<and> round64 1 = Finite 1 \<and>
   calculateKCL (Finite (2 ^ 53)) (Finite 1) = Finite (2 ^ 53) \<and>
   (2 ^ 53 :: real) \<noteq> 2 ^ 53 + 1 \<and>
   calculateKCL (round64 (1 / 10)) (round64 (1 / 5)) \<noteq> round64 (3 / 10) \<and>
   calculateKCL (round64 (10 ^ 308)) (round64 (10 ^ 308)) = PosInfinity"
proof -
  have a: "round64 (2 ^ 53) = Finite (2 ^ 53)" by (simp add: round64_two53)
  have b: "calculateKCL (Finite (2 ^ 53)) (Finite 1) = Finite (2 ^ 53)"
    by (simp add: calculateKCL_def round64_two53_plus_1)
  have e: "(3602879701896397 / 36028797018963968 + 3602879701896397 / 18014398509481984 :: real) =
      10808639105689191 / 36028797018963968"
    by simp
  have "calculateKCL (round64 (1 / 10)) (round64 (1 / 5)) =
      Finite (1351079888211149 / 4503599627370496)"
    by (simp only: round64_tenth round64_fifth calculateKCL_def js_add.simps e
        round64_sum_tenth_fifth)
  then have c: "calculateKCL (round64 (1 / 10)) (round64 (1 / 5)) \<noteq> round64 (3 / 10)"
    by (simp add: round64_three_tenths)
  have d: "calculateKCL (round64 (10 ^ 308)) (round64 (10 ^ 308)) = PosInfinity"
    by (simp add: calculateKCL_def round64_1e308 round64_sum_1e308)
  from a b c d round64_1 show ?thesis by simp
qed

text \<open>
  Claim C6. For every resistance \<open>R\<close>, zero included, \<^verbatim>\<open>calculateOhmsLaw(0, R)\<close>
  returns 0: the guard gives 0 at \<open>R = 0\<close>, and elsewhere the division gives the
  rounded \<open>0 / R\<close>, which is 0; an infinite resistance gives 0 as well.
\<close>

theorem calculateOhmsLaw_zero_voltage:
  "calculateOhmsLaw (Finite 0) (Finite R) = Inr (Finite 0) \<and>
   calculateOhmsLaw (Finite 0) PosInfinity = Inr (Finite 0) \<and>
   calculateOhmsLaw (Finite 0) NegInfinity = Inr (Finite 0)"
  by (simp add: calculateOhmsLaw_def js_div_def)

text \<open>The quotient of the division can be infinite without any zero divisor.\<close>

lemma calculateOhmsLaw_overflow:
  "calculateOhmsLaw (round64 (10 ^ 308)) (round64 (1 / 10)) = Inr PosInfinity"
  by (simp add: calculateOhmsLaw_def js_div_def round64_1e308 round64_tenth
      round64_quot_1e308_tenth)

text \<open>
  Claim C10. \<^verbatim>\<open>calculateOhmsLaw\<close> returns a number for every pair of numbers
  and never divides by zero: its result is the quotient wherever the division has a
  divisor other than zero, and the guard's 0 exactly where the division would have had
  a zero divisor; the zero-divisor outcome of the division is never the result.
\<close>

theorem calculateOhmsLaw_never_divides_by_zero:
  "(\<exists>c. calculateOhmsLaw V R = Inr c) \<and>
   calculateOhmsLaw V R = (case js_div V R of Inl z \<Rightarrow> Inr (Finite 0) | Inr q \<Rightarrow> Inr q)"
  by (simp add: calculateOhmsLaw_def js_div_def)

section \<open>Formatting and the document: basic facts\<close>

lemma digits_small: "n < 10 \<Longrightarrow> digits n = [digit_char n]"
  by (simp add: digits.simps)

lemma digits_step: "10 \<le> n \<Longrightarrow> digits n = digits (n div 10) @ [digit_char (n mod 10)]"
  by (subst digits.simps) simp

lemma digits_nonempty: "digits n \<noteq> []"
  by (subst digits.simps) simp

lemmas toFixed_eval = toFixed_def Let_def digits_small digits_step digit_char_def

text \<open>
  Below \<open>10^21\<close>, \<^verbatim>\<open>toFixed(2)\<close> ends in a point and exactly two further
  characters.
\<close>

lemma toFixed_two_decimals:
  assumes "\<bar>x\<bar> < 10 ^ 21"
  shows "\<exists>ip a b. toFixed expo 2 x = ip @ [CHR ''.'', a, b]"
proof -
  define n where "n = nat \<lfloor>\<bar>x\<bar> * 10 ^ 2 + 1 / 2\<rfloor>"
  define m where "m = (if length (digits n) \<le> 2
    then replicate (3 - length (digits n)) CHR ''0'' @ digits n else digits n)"
  define k where "k = (if length (digits n) \<le> 2 then 3 else length (digits n))"
  have lm: "length m = k" "3 \<le> k"
    using digits_nonempty[of n] by (auto simp: m_def k_def)
  then have "length (drop (k - 2) m) = 2" by simp
  then obtain a b where ab: "drop (k - 2) m = [a, b]"
    by (metis (no_types, opaque_lifting) One_nat_def Suc_1 length_0_conv length_Suc_conv)
  have "toFixed expo 2 x = (if x < 0 then ''-'' else []) @ take (k - 2) m @ ''.'' @ drop (k - 2) m"
    using assms by (auto simp: toFixed_def Let_def n_def m_def k_def abs_if)
  with ab show ?thesis by (metis append.assoc append_Cons append_Nil)
qed

subsection \<open>Class lists and lookups\<close>

lemma length_classList_remove [simp]: "length (classList_remove c e d) = length d"
  by (simp add: classList_remove_def)

lemma length_classList_add [simp]: "length (classList_add c e d) = length d"
  by (simp add: classList_add_def)

lemma length_fold_remove [simp]: "length (fold (classList_remove c) xs d) = length d"
  by (induction xs arbitrary: d) simp_all

lemma classes_classList_remove:
  "k < length d \<Longrightarrow>
   classes (classList_remove c e d ! k) = (if k = e then classes (d ! k) - {c} else classes (d ! k))"
  by (simp add: classList_remove_def nth_list_update)

lemma classes_classList_add:
  "k < length d \<Longrightarrow>
   classes (classList_add c e d ! k) = (if k = e then insert c (classes (d ! k)) else classes (d ! k))"
  by (simp add: classList_add_def nth_list_update)

lemma classes_fold_remove:
  "k < length d \<Longrightarrow>
   classes (fold (classList_remove c) xs d ! k) =
     (if k \<in> set xs then classes (d ! k) - {c} else classes (d ! k))"
proof (induction xs arbitrary: d)
  case Nil
  then show ?case by simp
next
  case (Cons x xs)
  from Cons.prems have "k < length (classList_remove c x d)" by simp
  from Cons.IH[OF this] Cons.prems show ?case
    by (auto simp: classes_classList_remove)
qed

lemma idents_classList_remove [simp]: "map ident (classList_remove c e d) = map ident d"
  by (cases "e < length d")
    (auto intro!: nth_equalityI simp: classList_remove_def nth_list_update)

lemma idents_classList_add [simp]: "map ident (classList_add c e d) = map ident d"
  by (cases "e < length d")
    (auto intro!: nth_equalityI simp: classList_add_def nth_list_update)

lemma idents_fold_remove [simp]: "map ident (fold (classList_remove c) xs d) = map ident d"
  by (induction xs arbitrary: d) simp_all

lemma getElementById_idents:
  assumes "map ident d' = map ident d"
  shows "getElementById i d' = getElementById i d"
proof -
  from assms have len: "length d' = length d" by (rule map_eq_imp_length_eq)
  have "ident (d' ! k) = ident (d ! k)" if "k < length d" for k
    using assms that len by (metis nth_map)
  then show ?thesis
    unfolding getElementById_def len by (intro find_cong) auto
qed

lemma getElementById_SomeD:
  "getElementById i d = Some k \<Longrightarrow> k < length d \<and> ident (d ! k) = Some i"
  by (auto simp: getElementById_def find_Some_iff)

lemma node_list_querySelectorAll: "node_list d (querySelectorAll c d)"
  by (auto simp: node_list_def querySelectorAll_def)

lemma filter_eq_single:
  "distinct xs \<Longrightarrow> x \<in> set xs \<Longrightarrow> filter (\<lambda>k. k = x) xs = [x]"
  by (induction xs) (auto simp: filter_empty_conv)

lemma active_after_switch:
  assumes "k < length d" and "b < length d" and "t < length d"
    and "k \<in> set bs \<union> set ss"
  shows "''active'' \<in> classes (classList_add ''active'' t (classList_add ''active'' b
           (fold (classList_remove ''active'') ss (fold (classList_remove ''active'') bs d))) ! k)
         \<longleftrightarrow> k = b \<or> k = t"
  using assms by (auto simp: classes_classList_add classes_classList_remove classes_fold_remove)

lemma active_among_after_switch:
  assumes bs: "node_list d bs" and ss: "node_list d ss"
    and b: "b \<in> set bs" "b \<notin> set ss" and t: "t \<in> set ss" "t \<notin> set bs"
  defines "d' \<equiv> classList_add ''active'' t (classList_add ''active'' b
           (fold (classList_remove ''active'') ss (fold (classList_remove ''active'') bs d)))"
  shows "active_among d' bs = [b] \<and> active_among d' ss = [t]"
proof -
  have bt: "b < length d" "t < length d" using bs ss b t by (auto simp: node_list_def)
  have "active_among d' bs = filter (\<lambda>k. k = b) bs"
    unfolding active_among_def d'_def
    by (rule filter_cong[OF refl]) (use bs bt t active_after_switch in \<open>auto simp: node_list_def\<close>)
  then have 1: "active_among d' bs = [b]" using bs b by (simp add: filter_eq_single node_list_def)
  have "active_among d' ss = filter (\<lambda>k. k = t) ss"
    unfolding active_among_def d'_def
    by (rule filter_cong[OF refl]) (use ss bt b active_after_switch in \<open>auto simp: node_list_def\<close>)
  then have "active_among d' ss = [t]" using ss t by (simp add: filter_eq_single node_list_def)
  with 1 show ?thesis by simp
qed

text \<open>Without a target: the selectors' marks are the clicked one, the sections' none.\<close>

lemma active_among_after_clear:
  assumes bs: "node_list d bs" and ss: "node_list d ss"
    and b: "b \<in> set bs" "b \<notin> set ss"
  defines "d' \<equiv> classList_add ''active'' b
           (fold (classList_remove ''active'') ss (fold (classList_remove ''active'') bs d))"
  shows "active_among d' bs = [b] \<and> active_among d' ss = []"
proof -
  have bt: "b < length d" using bs b by (auto simp: node_list_def)
  have "active_among d' bs = filter (\<lambda>k. k = b) bs"
    unfolding active_among_def d'_def
    by (rule filter_cong[OF refl])
      (use bs bt in \<open>auto simp: node_list_def classes_classList_add classes_fold_remove\<close>)
  then have 1: "active_among d' bs = [b]" using bs b by (simp add: filter_eq_single node_list_def)
  have "active_among d' ss = []"
    unfolding active_among_def d'_def filter_empty_conv
    using ss bt b by (auto simp: node_list_def classes_classList_add classes_fold_remove)
  with 1 show ?thesis by simp
qed

lemma getElementById_classList [simp]:
  "getElementById i (classList_add c e d) = getElementById i d"
  "getElementById i (classList_remove c e d) = getElementById i d"
  "getElementById i (fold (classList_remove c) xs d) = getElementById i d"
  by (rule getElementById_idents, simp)+


subsection \<open>The example pages\<close>

lemma blank_simps [simp]:
  "ident blank = None" "classes blank = {}" "attrs blank = (\<lambda>_. None)" "val blank = 0"
  "textContent blank = []" "color blank = []"
  by (simp_all add: blank_def)

lemma page_world_simps [simp]:
  "document (page_world d) = d" "console (page_world d) = []" "listeners (page_world d) = []"
  by (simp_all add: page_world_def)

lemma lab_page_queries:
  "querySelectorAll ''nav-btn'' lab_page = [0, 1, 2]"
  "querySelectorAll ''content-section'' lab_page = [3, 4]"
  "querySelectorAll ''element-tab'' lab_page = [5, 6, 7]"
  "querySelectorAll ''element-panel'' lab_page = [8, 9]"
  by (simp_all add: querySelectorAll_def lab_page_def selector_def section_of_def upt_rec)

lemma lab_page_ids:
  "getElementById ''kcl'' lab_page = Some 4"
  "getElementById ''power'' lab_page = None"
  "getElementById ''capacitor-panel'' lab_page = Some 9"
  "getElementById ''diode-panel'' lab_page = None"
  by (simp_all add: getElementById_def lab_page_def selector_def section_of_def upt_rec)

lemma lab_page_attrs:
  "getAttribute ''data-section'' (Suc 0) lab_page = Some ''kcl''"
  "getAttribute ''data-section'' 2 lab_page = Some ''power''"
  "getAttribute ''data-element'' 6 lab_page = Some ''capacitor''"
  "getAttribute ''data-element'' 7 lab_page = Some ''diode''"
  by (simp_all add: getAttribute_def lab_page_def selector_def section_of_def)

lemma platform_page_queries:
  "querySelectorAll ''nav-link'' platform_page = [0, 1, 2]"
  "querySelectorAll ''content-section'' platform_page = [3, 4]"
  "querySelectorAll ''data-nav-btn'' platform_page = [5, 6, 7]"
  "querySelectorAll ''data-subsection'' platform_page = [8, 9]"
  "querySelectorAll ''element-tab'' platform_page = [10, 11, 12]"
  "querySelectorAll ''element-panel'' platform_page = [13, 14]"
  by (simp_all add: querySelectorAll_def platform_page_def selector_def section_of_def upt_rec)

lemma platform_page_ids:
  "getElementById ''data'' platform_page = Some 4"
  "getElementById ''about'' platform_page = None"
  "getElementById ''formulas-subsection'' platform_page = Some 9"
  "getElementById ''lab-subsection'' platform_page = None"
  "getElementById ''capacitor-panel'' platform_page = Some 14"
  "getElementById ''diode-panel'' platform_page = None"
  by (simp_all add: getElementById_def platform_page_def selector_def section_of_def upt_rec)

lemma platform_page_attrs:
  "getAttribute ''data-section'' (Suc 0) platform_page = Some ''data''"
  "getAttribute ''data-section'' 2 platform_page = Some ''about''"
  "getAttribute ''data-subsection'' 6 platform_page = Some ''formulas''"
  "getAttribute ''data-subsection'' 7 platform_page = Some ''lab''"
  "getAttribute ''data-element'' 11 platform_page = Some ''capacitor''"
  "getAttribute ''data-element'' 12 platform_page = Some ''diode''"
  by (simp_all add: getAttribute_def platform_page_def selector_def section_of_def)

subsection \<open>A click whose target exists\<close>

lemma initNavigation_click_switches:
  assumes bs: "node_list (document w) bs" and ss: "node_list (document w) ss"
    and disj: "set bs \<inter> set ss = {}" and b: "b \<in> set bs" and t: "t \<in> set ss"
    and attr: "\<not> falsy (getAttribute ''data-section'' b (document w))"
    and target: "getElementById (js_string (getAttribute ''data-section'' b (document w))) (document w) = Some t"
  shows "marks_exactly bs ss b t (initNavigation_click bs ss b w)"
proof -
  have nb: "b \<notin> set ss" "t \<notin> set bs" using disj b t by auto
  have run: "initNavigation_click bs ss b w =
    (None, w\<lparr>document := classList_add ''active'' t (classList_add ''active'' b
       (fold (classList_remove ''active'') ss (fold (classList_remove ''active'') bs (document w))))\<rparr>)"
    unfolding initNavigation_click_def Let_def
    by (simp only: attr target if_False) (simp add: classList_add_ref_def)
  have marks: "active_among (classList_add ''active'' t (classList_add ''active'' b
       (fold (classList_remove ''active'') ss (fold (classList_remove ''active'') bs (document w))))) bs = [b] \<and>
     active_among (classList_add ''active'' t (classList_add ''active'' b
       (fold (classList_remove ''active'') ss (fold (classList_remove ''active'') bs (document w))))) ss = [t]"
    by (rule active_among_after_switch[OF bs ss b nb(1) t nb(2)])
  show ?thesis unfolding marks_exactly_def run using marks by simp
qed

lemma initElementTabs_click_switches:
  assumes bs: "node_list (document w) bs" and ss: "node_list (document w) ss"
    and disj: "set bs \<inter> set ss = {}" and b: "b \<in> set bs" and t: "t \<in> set ss"
    and attr: "\<not> falsy (getAttribute ''data-element'' b (document w))"
    and target: "getElementById (js_string (getAttribute ''data-element'' b (document w)) @ ''-panel'') (document w) = Some t"
  shows "marks_exactly bs ss b t (initElementTabs_click bs ss b w)"
proof -
  have nb: "b \<notin> set ss" "t \<notin> set bs" using disj b t by auto
  have run: "initElementTabs_click bs ss b w =
    (None, w\<lparr>document := classList_add ''active'' t (classList_add ''active'' b
       (fold (classList_remove ''active'') ss (fold (classList_remove ''active'') bs (document w))))\<rparr>)"
    unfolding initElementTabs_click_def Let_def
    by (simp only: attr target if_False) (simp add: classList_add_ref_def)
  have marks: "active_among (classList_add ''active'' t (classList_add ''active'' b
       (fold (classList_remove ''active'') ss (fold (classList_remove ''active'') bs (document w))))) bs = [b] \<and>
     active_among (classList_add ''active'' t (classList_add ''active'' b
       (fold (classList_remove ''active'') ss (fold (classList_remove ''active'') bs (document w))))) ss = [t]"
    by (rule active_among_after_switch[OF bs ss b nb(1) t nb(2)])
  show ?thesis unfolding marks_exactly_def run using marks by simp
qed

lemma initMainNavigation_click_switches:
  assumes bs: "node_list (document w) bs" and ss: "node_list (document w) ss"
    and disj: "set bs \<inter> set ss = {}" and b: "b \<in> set bs" and t: "t \<in> set ss"
    and target: "getElementById (js_string (getAttribute ''data-section'' b (document w))) (document w) = Some t"
  shows "marks_exactly bs ss b t (initMainNavigation_click bs ss b w)"
proof -
  have nb: "b \<notin> set ss" "t \<notin> set bs" using disj b t by auto
  have run: "initMainNavigation_click bs ss b w =
    (None, w\<lparr>document := classList_add ''active'' t (classList_add ''active'' b
       (fold (classList_remove ''active'') ss (fold (classList_remove ''active'') bs (document w))))\<rparr>)"
    unfolding initMainNavigation_click_def Let_def
    by (simp only: target if_False getElementById_classList) (simp add: classList_add_ref_def)
  have marks: "active_among (classList_add ''active'' t (classList_add ''active'' b
       (fold (classList_remove ''active'') ss (fold (classList_remove ''active'') bs (document w))))) bs = [b] \<and>
     active_among (classList_add ''active'' t (classList_add ''active'' b
       (fold (classList_remove ''active'') ss (fold (classList_remove ''active'') bs (document w))))) ss = [t]"
    by (rule active_among_after_switch[OF bs ss b nb(1) t nb(2)])
  show ?thesis unfolding marks_exactly_def run using marks by simp
qed

lemma initDataNavigation_click_switches:
  assumes bs: "node_list (document w) bs" and ss: "node_list (document w) ss"
    and disj: "set bs \<inter> set ss = {}" and b: "b \<in> set bs" and t: "t \<in> set ss"
    and target: "getElementById (js_string (getAttribute ''data-subsection'' b (document w)) @ ''-subsection'') (document w) = Some t"
  shows "marks_exactly bs ss b t (initDataNavigation_click bs ss b w)"
proof -
  have nb: "b \<notin> set ss" "t \<notin> set bs" using disj b t by auto
  have run: "initDataNavigation_click bs ss b w =
    (None, w\<lparr>document := classList_add ''active'' t (classList_add ''active'' b
       (fold (classList_remove ''active'') ss (fold (classList_remove ''active'') bs (document w))))\<rparr>)"
    unfolding initDataNavigation_click_def Let_def
    by (simp only: target if_False getElementById_classList) (simp add: classList_add_ref_def)
  have marks: "active_among (classList_add ''active'' t (classList_add ''active'' b
       (fold (classList_remove ''active'') ss (fold (classList_remove ''active'') bs (document w))))) bs = [b] \<and>
     active_among (classList_add ''active'' t (classList_add ''active'' b
       (fold (classList_remove ''active'') ss (fold (classList_remove ''active'') bs (document w))))) ss = [t]"
    by (rule active_among_after_switch[OF bs ss b nb(1) t nb(2)])
  show ?thesis unfolding marks_exactly_def run using marks by simp
qed

lemma initElementTabs_click_p0_switches:
  assumes bs: "node_list (document w) bs" and ss: "node_list (document w) ss"
    and disj: "set bs \<inter> set ss = {}" and b: "b \<in> set bs" and t: "t \<in> set ss"
    and attr: "\<not> falsy (getAttribute ''data-element'' b (document w))"
    and target: "getElementById (js_string (getAttribute ''data-element'' b (document w)) @ ''-panel'') (document w) = Some t"
  shows "marks_exactly bs ss b t (initElementTabs_click_p0 bs ss b w)"
proof -
  have nb: "b \<notin> set ss" "t \<notin> set bs" using disj b t by auto
  have run: "initElementTabs_click_p0 bs ss b w =
    (None, w\<lparr>document := classList_add ''active'' t (classList_add ''active'' b
       (fold (classList_remove ''active'') ss (fold (classList_remove ''active'') bs (document w))))\<rparr>)"
    unfolding initElementTabs_click_p0_def Let_def
    by (simp only: attr target if_False) (simp add: classList_add_ref_def)
  have marks: "active_among (classList_add ''active'' t (classList_add ''active'' b
       (fold (classList_remove ''active'') ss (fold (classList_remove ''active'') bs (document w))))) bs = [b] \<and>
     active_among (classList_add ''active'' t (classList_add ''active'' b
       (fold (classList_remove ''active'') ss (fold (classList_remove ''active'') bs (document w))))) ss = [t]"
    by (rule active_among_after_switch[OF bs ss b nb(1) t nb(2)])
  show ?thesis unfolding marks_exactly_def run using marks by simp
qed


subsection \<open>A click whose target is missing\<close>

lemma document_console [simp]:
  "document (console_error args w) = document w"
  "document (console_warn args w) = document w"
  "document (console_log args w) = document w"
  by (simp_all add: console_error_def console_warn_def console_log_def)

lemma initNavigation_click_no_attribute:
  assumes "falsy (getAttribute ''data-section'' b (document w))"
  shows "initNavigation_click bs ss b w =
     (None, console_error [''No data-section attribute found on button''] w)"
  unfolding initNavigation_click_def Let_def by (simp only: assms if_True)

lemma initNavigation_click_missing_target:
  assumes "\<not> falsy (getAttribute ''data-section'' b (document w))"
    and "getElementById (js_string (getAttribute ''data-section'' b (document w))) (document w) = None"
  shows "initNavigation_click bs ss b w =
     (None, console_error [''Target section not found:'',
        js_string (getAttribute ''data-section'' b (document w))] w)"
  unfolding initNavigation_click_def Let_def by (simp only: assms if_True if_False simp_thms)

lemma initElementTabs_click_no_attribute:
  assumes "falsy (getAttribute ''data-element'' b (document w))"
  shows "initElementTabs_click bs ss b w =
     (None, console_error [''No data-element attribute found on tab''] w)"
  unfolding initElementTabs_click_def Let_def by (simp only: assms if_True)

lemma initElementTabs_click_missing_target:
  assumes "\<not> falsy (getAttribute ''data-element'' b (document w))"
    and "getElementById (js_string (getAttribute ''data-element'' b (document w)) @ ''-panel'') (document w) = None"
  shows "initElementTabs_click bs ss b w =
     (None, console_error [''Target panel not found:'',
        js_string (getAttribute ''data-element'' b (document w))] w)"
  unfolding initElementTabs_click_def Let_def by (simp only: assms if_True if_False simp_thms)

lemma initElementTabs_click_p0_missing:
  assumes "falsy (getAttribute ''data-element'' b (document w)) \<or>
     getElementById (js_string (getAttribute ''data-element'' b (document w)) @ ''-panel'') (document w) = None"
  shows "initElementTabs_click_p0 bs ss b w = (None, w)"
  using assms unfolding initElementTabs_click_p0_def Let_def by (auto simp only: if_True if_False split: if_splits)

lemma initDataNavigation_click_missing_target:
  assumes "getElementById (js_string (getAttribute ''data-subsection'' b (document w)) @ ''-subsection'') (document w) = None"
  shows "initDataNavigation_click bs ss b w =
     (None, w\<lparr>document := classList_add ''active'' b
        (fold (classList_remove ''active'') ss (fold (classList_remove ''active'') bs (document w)))\<rparr>)"
  unfolding initDataNavigation_click_def Let_def
  by (simp only: assms getElementById_classList) simp

lemma initMainNavigation_click_missing_target:
  assumes "getElementById (js_string (getAttribute ''data-section'' l (document w))) (document w) = None"
  shows "initMainNavigation_click ls ss l w =
     (Some TypeError, w\<lparr>document := classList_add ''active'' l
        (fold (classList_remove ''active'') ss (fold (classList_remove ''active'') ls (document w)))\<rparr>)"
  unfolding initMainNavigation_click_def Let_def classList_add_ref_def
  by (simp only: assms getElementById_classList) simp

text \<open>The guarded handlers return normally on every input.\<close>

lemma classList_add_ref_Some: "r \<noteq> None \<Longrightarrow> \<exists>d'. classList_add_ref c r d = Inr d'"
  by (cases r) (simp_all add: classList_add_ref_def)

lemma initNavigation_click_returns: "fst (initNavigation_click bs ss b w) = None"
proof -
  let ?a = "getAttribute ''data-section'' b (document w)"
  let ?t = "getElementById (js_string ?a) (document w)"
  consider "falsy ?a" | "\<not> falsy ?a" "?t = None" | t where "\<not> falsy ?a" "?t = Some t"
    by (cases ?t) auto
  then show ?thesis
  proof cases
    case 1
    then show ?thesis by (simp add: initNavigation_click_no_attribute)
  next
    case 2
    then show ?thesis by (simp add: initNavigation_click_missing_target)
  next
    case 3
    then show ?thesis
      unfolding initNavigation_click_def Let_def classList_add_ref_def
      by (simp only: 3 if_False) simp
  qed
qed

lemma initElementTabs_click_returns: "fst (initElementTabs_click bs ss b w) = None"
proof -
  let ?a = "getAttribute ''data-element'' b (document w)"
  let ?t = "getElementById (js_string ?a @ ''-panel'') (document w)"
  consider "falsy ?a" | "\<not> falsy ?a" "?t = None" | t where "\<not> falsy ?a" "?t = Some t"
    by (cases ?t) auto
  then show ?thesis
  proof cases
    case 1
    then show ?thesis by (simp add: initElementTabs_click_no_attribute)
  next
    case 2
    then show ?thesis by (simp add: initElementTabs_click_missing_target)
  next
    case 3
    then show ?thesis
      unfolding initElementTabs_click_def Let_def classList_add_ref_def
      by (simp only: 3 if_False) simp
  qed
qed

lemma initElementTabs_click_p0_returns: "fst (initElementTabs_click_p0 bs ss b w) = None"
proof -
  let ?a = "getAttribute ''data-element'' b (document w)"
  let ?t = "getElementById (js_string ?a @ ''-panel'') (document w)"
  consider "falsy ?a \<or> ?t = None" | t where "\<not> falsy ?a" "?t = Some t"
    by (cases ?t) auto
  then show ?thesis
  proof cases
    case 1
    then show ?thesis by (simp add: initElementTabs_click_p0_missing)
  next
    case 2
    then show ?thesis
      unfolding initElementTabs_click_p0_def Let_def classList_add_ref_def
      by (simp only: 2 if_False) simp
  qed
qed

lemma initDataNavigation_click_returns: "fst (initDataNavigation_click bs ss b w) = None"
proof -
  let ?a = "getAttribute ''data-subsection'' b (document w)"
  let ?t = "getElementById (js_string ?a @ ''-subsection'') (document w)"
  show ?thesis
  proof (cases ?t)
    case None
    then show ?thesis by (simp add: initDataNavigation_click_missing_target)
  next
    case (Some t)
    then show ?thesis
      unfolding initDataNavigation_click_def Let_def classList_add_ref_def
      by (simp only: Some getElementById_classList) simp
  qed
qed


subsection \<open>Initialisers and panels\<close>

lemma initNavigation_no_buttons:
  assumes "querySelectorAll ''nav-btn'' (document w) = []"
  shows "initNavigation w = console_error [''Navigation buttons not found!''] w"
  unfolding initNavigation_def Let_def by (simp add: assms)

lemma initNavigation_no_sections:
  assumes "querySelectorAll ''nav-btn'' (document w) \<noteq> []"
    and "querySelectorAll ''content-section'' (document w) = []"
  shows "initNavigation w = console_error [''Content sections not found!''] w"
  unfolding initNavigation_def Let_def by (simp add: assms)

lemma initElementTabs_absent:
  assumes "querySelectorAll ''element-tab'' (document w) = [] \<or>
     querySelectorAll ''element-panel'' (document w) = []"
  shows "initElementTabs w = w"
  using assms unfolding initElementTabs_def Let_def by auto

lemma initOhmsLaw_missing:
  assumes "\<exists>i\<in>set ohm_ids. getElementById i (document w) = None"
  shows "initOhmsLaw expo w =
       console_warn [''Ohm's Law elements not found, skipping initialization''] w \<and>
     initOhmsLaw_p0 expo w = w"
proof -
  from assms have
    "getElementById ''voltage'' (document w) = None \<or>
     getElementById ''resistance'' (document w) = None \<or>
     getElementById ''voltage-value'' (document w) = None \<or>
     getElementById ''resistance-value'' (document w) = None \<or>
     getElementById ''current-value'' (document w) = None"
    by (simp add: ohm_ids_def)
  then show ?thesis
    unfolding initOhmsLaw_def initOhmsLaw_p0_def Let_def by (simp only: if_True simp_thms)
qed

lemma initKCL_missing:
  assumes "\<exists>i\<in>set kcl_ids. getElementById i (document w) = None"
  shows "initKCL expo w =
       console_warn [''KCL elements not found, skipping initialization''] w \<and>
     initKCL_p0 expo w = w"
proof -
  from assms have
    "getElementById ''i1'' (document w) = None \<or>
     getElementById ''i2'' (document w) = None \<or>
     getElementById ''i1-value'' (document w) = None \<or>
     getElementById ''i2-value'' (document w) = None \<or>
     getElementById ''i3-value'' (document w) = None"
    by (simp add: kcl_ids_def)
  then show ?thesis
    unfolding initKCL_def initKCL_p0_def Let_def by (simp only: if_True simp_thms)
qed

lemma initKVL_missing:
  assumes "\<exists>i\<in>set kvl_ids. getElementById i (document w) = None"
  shows "initKVL expo w =
       console_warn [''KVL elements not found, skipping initialization''] w \<and>
     initKVL_p0 expo w = w"
proof -
  from assms have
    "getElementById ''source-voltage'' (document w) = None \<or>
     getElementById ''v1'' (document w) = None \<or>
     getElementById ''v2'' (document w) = None \<or>
     getElementById ''source-voltage-value'' (document w) = None \<or>
     getElementById ''v1-value'' (document w) = None \<or>
     getElementById ''v2-value'' (document w) = None \<or>
     getElementById ''voltage-sum-value'' (document w) = None \<or>
     getElementById ''kvl-validation'' (document w) = None"
    by (simp add: kvl_ids_def)
  then show ?thesis
    unfolding initKVL_def initKVL_p0_def Let_def by (simp only: if_True simp_thms)
qed

lemma length_set_textContent [simp]: "length (set_textContent e s d) = length d"
  by (simp add: set_textContent_def)

lemma textContent_set_color [simp]:
  "textContent (set_color e c d ! k) = textContent (d ! k)"
  by (cases "e < length d") (simp_all add: set_color_def nth_list_update list_update_beyond)




subsection \<open>The Ohm panel on a page\<close>

lemma ohm_page_ids:
  "getElementById ''voltage'' (ohm_page v r) = Some 0"
  "getElementById ''resistance'' (ohm_page v r) = Some 1"
  "getElementById ''voltage-value'' (ohm_page v r) = Some 2"
  "getElementById ''resistance-value'' (ohm_page v r) = Some 3"
  "getElementById ''current-value'' (ohm_page v r) = Some 4"
  by (simp_all add: getElementById_def ohm_page_def upt_rec)

text \<open>
  Both scripts leave the same texts on such a page: the two sliders' values with one
  decimal, and the current with two.
\<close>

lemma initOhmsLaw_ohm_page:
  "map textContent (document (initOhmsLaw expo (page_world (ohm_page v r)))) =
     [[], [], toFixed_number expo 1 (round64 v) @ '' V'',
      toFixed_number expo 1 (round64 r) @ '' '' @ ohm_sign,
      toFixed_number expo 2 (value_of (calculateOhmsLaw (round64 v) (round64 r))) @ '' A'']"
  apply (simp add: initOhmsLaw_def page_world_def ohm_page_ids addEventListener_def)
  apply (simp add: updateVoltage_def updateResistance_def updateOhmsLawCurrent_def Let_def
      parseFloat_value_def set_textContent_def ohm_page_def)
  done

lemma initOhmsLaw_p0_ohm_page:
  "map textContent (document (initOhmsLaw_p0 expo (page_world (ohm_page v r)))) =
     [[], [], toFixed_number expo 1 (round64 v) @ '' V'',
      toFixed_number expo 1 (round64 r) @ '' '' @ ohm_sign,
      toFixed_number expo 2 (value_of (calculateOhmsLaw (round64 v) (round64 r))) @ '' A'']"
  apply (simp add: initOhmsLaw_p0_def page_world_def ohm_page_ids addEventListener_def)
  apply (simp add: updateVoltage_def updateResistance_def updateOhmsLawCurrent_def Let_def
      parseFloat_value_def set_textContent_def ohm_page_def)
  done

lemma calculateOhmsLaw_10_5: "calculateOhmsLaw (Finite 10) (Finite 5) = Inr (Finite 2)"
  by (simp add: calculateOhmsLaw_def js_div_def round64_2)

lemma calculateOhmsLaw_1_5_20:
  "calculateOhmsLaw (Finite (3 / 2)) (Finite 20) =
     Inr (Finite (5404319552844595 / 72057594037927936))"
  by (simp add: calculateOhmsLaw_def js_div_def round64_three_fortieths)

text \<open>The scenario of the spec: sliders at 10 and 5.\<close>

lemma ohm_scenario:
  "map textContent (document (initOhmsLaw expo (page_world (ohm_page 10 5)))) =
     [[], [], ''10.0 V'', ''5.0 '' @ ohm_sign, ''2.00 A'']"
  unfolding initOhmsLaw_ohm_page round64_10 round64_5 calculateOhmsLaw_10_5
  by (simp add: toFixed_number_def value_of_def toFixed_eval)

lemma ohm_scenario_p0:
  "map textContent (document (initOhmsLaw_p0 expo (page_world (ohm_page 10 5)))) =
     [[], [], ''10.0 V'', ''5.0 '' @ ohm_sign, ''2.00 A'']"
  unfolding initOhmsLaw_p0_ohm_page round64_10 round64_5 calculateOhmsLaw_10_5
  by (simp add: toFixed_number_def value_of_def toFixed_eval)

text \<open>
  Sliders at 1.5 and 20: the quotient is rounded to a number below \<open>0.075\<close>, and the
  panel shows \<^verbatim>\<open>0.07 A\<close>; the real quotient \<open>0.075\<close> would print as
  \<^verbatim>\<open>0.08\<close>.
\<close>

lemma toFixed_rounded_quotient:
  "toFixed expo 2 (5404319552844595 / 72057594037927936) = ''0.07''"
proof -
  have "\<lfloor>(5404319552844595 / 72057594037927936 :: real) * 10 ^ 2 + 1 / 2\<rfloor> = 7"
    by (simp add: floor_eq_iff)
  then show ?thesis by (simp add: toFixed_eval)
qed

lemma toFixed_real_quotient: "toFixed expo 2 (3 / 2 / 20) = ''0.08''"
proof -
  have "\<lfloor>(3 / 2 / 20 :: real) * 10 ^ 2 + 1 / 2\<rfloor> = 8"
    by (simp add: floor_eq_iff)
  then show ?thesis by (simp add: toFixed_eval)
qed

lemma ohm_scenario_rounded:
  "map textContent (document (initOhmsLaw expo (page_world (ohm_page (3 / 2) 20)))) =
     [[], [], ''1.5 V'', ''20.0 '' @ ohm_sign, ''0.07 A'']"
  unfolding initOhmsLaw_ohm_page round64_three_halves round64_20 calculateOhmsLaw_1_5_20
  by (simp add: toFixed_number_def value_of_def toFixed_rounded_quotient) (simp add: toFixed_eval)

subsection \<open>The KVL panel on a page\<close>

lemma kvl_page_ids:
  "getElementById ''source-voltage'' (kvl_page s a b) = Some 0"
  "getElementById ''v1'' (kvl_page s a b) = Some 1"
  "getElementById ''v2'' (kvl_page s a b) = Some 2"
  "getElementById ''source-voltage-value'' (kvl_page s a b) = Some 3"
  "getElementById ''v1-value'' (kvl_page s a b) = Some 4"
  "getElementById ''v2-value'' (kvl_page s a b) = Some 5"
  "getElementById ''voltage-sum-value'' (kvl_page s a b) = Some 6"
  "getElementById ''kvl-validation'' (kvl_page s a b) = Some 7"
  by (simp_all add: getElementById_def kvl_page_def upt_rec)

lemma initKVL_kvl_page:
  "initKVL expo (page_world (kvl_page s a b)) =
     \<lparr>document = validateKVL expo kvl_refs0 (updateV2 expo kvl_refs0 (updateV1 expo kvl_refs0
         (updateSourceVoltage expo kvl_refs0 (kvl_page s a b)))),
      console = [],
      listeners = [(0, ''input'', UpdateSourceVoltage kvl_refs0),
         (1, ''input'', UpdateV1 kvl_refs0), (2, ''input'', UpdateV2 kvl_refs0)]\<rparr>"
  by (simp add: initKVL_def page_world_def kvl_page_ids addEventListener_def kvl_refs0_def Let_def)

lemma validateKVL_list:
  "validateKVL expo kvl_refs0 [e0, e1, e2, e3, e4, e5, e6, e7] =
     [e0, e1, e2, e3, e4, e5,
      e6\<lparr>textContent :=
        toFixed_number expo 2 (calculateKVL (round64 (val e1)) (round64 (val e2))) @ '' V''\<rparr>,
      if isKVLBalanced (round64 (val e0)) (calculateKVL (round64 (val e1)) (round64 (val e2)))
      then e7\<lparr>textContent := check_mark @ '' Equation is balanced'', color := ''#4ade80''\<rparr>
      else e7\<lparr>textContent := warning_sign @ '' Difference: '' @
              toFixed_number expo 2 (js_abs (js_sub (round64 (val e0))
                (calculateKVL (round64 (val e1)) (round64 (val e2))))) @ '' V'',
            color := ''#fbbf24''\<rparr>]"
  by (simp add: validateKVL_def kvl_refs0_def Let_def parseFloat_value_def set_textContent_def
      set_color_def)

lemma updateSourceVoltage_list:
  "updateSourceVoltage expo kvl_refs0 [e0, e1, e2, e3, e4, e5, e6, e7] =
     validateKVL expo kvl_refs0
       [e0, e1, e2, e3\<lparr>textContent := toFixed_number expo 1 (round64 (val e0)) @ '' V''\<rparr>,
        e4, e5, e6, e7]"
  by (simp add: updateSourceVoltage_def kvl_refs0_def Let_def parseFloat_value_def
      set_textContent_def)

lemma updateV1_list:
  "updateV1 expo kvl_refs0 [e0, e1, e2, e3, e4, e5, e6, e7] =
     validateKVL expo kvl_refs0
       [e0, e1, e2, e3, e4\<lparr>textContent := toFixed_number expo 1 (round64 (val e1)) @ '' V''\<rparr>,
        e5, e6, e7]"
  by (simp add: updateV1_def kvl_refs0_def Let_def parseFloat_value_def set_textContent_def)

lemma updateV2_list:
  "updateV2 expo kvl_refs0 [e0, e1, e2, e3, e4, e5, e6, e7] =
     validateKVL expo kvl_refs0
       [e0, e1, e2, e3, e4, e5\<lparr>textContent := toFixed_number expo 1 (round64 (val e2)) @ '' V''\<rparr>,
        e6, e7]"
  by (simp add: updateV2_def kvl_refs0_def Let_def parseFloat_value_def set_textContent_def)


lemma kvl_page_balanced:
  assumes "isKVLBalanced (round64 s) (calculateKVL (round64 a) (round64 b))"
  shows "map textContent (document (initKVL expo (page_world (kvl_page s a b)))) =
     [[], [], [], toFixed_number expo 1 (round64 s) @ '' V'',
      toFixed_number expo 1 (round64 a) @ '' V'', toFixed_number expo 1 (round64 b) @ '' V'',
      toFixed_number expo 2 (calculateKVL (round64 a) (round64 b)) @ '' V'',
      check_mark @ '' Equation is balanced'']"
  unfolding initKVL_kvl_page
  by (simp add: kvl_page_def updateSourceVoltage_list updateV1_list updateV2_list
      validateKVL_list assms)


lemma calculateKVL_5_7: "calculateKVL (Finite 5) (Finite 7) = Finite 12"
  by (simp add: calculateKVL_def round64_12)



lemma balanced_12_12: "isKVLBalanced (Finite 12) (Finite 12)"
  by (simp add: isKVLBalanced_finite)










text \<open>The balanced scenario of the spec: source 12, drops 5 and 7.\<close>

lemma kvl_scenario_balanced:
  "map textContent (document (initKVL expo (page_world (kvl_page 12 5 7)))) =
     [[], [], [], ''12.0 V'', ''5.0 V'', ''7.0 V'', ''12.00 V'',
      check_mark @ '' Equation is balanced'']"
proof -
  have u: "isKVLBalanced (round64 12) (calculateKVL (round64 5) (round64 7))"
    unfolding round64_12 round64_5 round64_7 calculateKVL_5_7 by (rule balanced_12_12)
  show ?thesis
    unfolding kvl_page_balanced[OF u] round64_12 round64_5 round64_7 calculateKVL_5_7
    by (simp add: toFixed_number_def toFixed_eval)
qed



lemma real_difference_4_61:
  "\<not> \<bar>5190398570544497 / 1125899906842624 -
       (3242591731706757 / 9007199254740992 + 2386907802506363 / 562949953421312)\<bar>
     < (1 / 100 :: real)"
  by simp




subsection \<open>What the initialisers register\<close>

lemma fold_addEventListener:
  "fold (\<lambda>b. addEventListener b ev (f b)) xs w =
     w\<lparr>listeners := listeners w @ map (\<lambda>b. (b, ev, f b)) xs\<rparr>"
  by (induction xs arbitrary: w) (simp_all add: addEventListener_def)

lemma initNavigation_registers:
  assumes "querySelectorAll ''nav-btn'' (document w) \<noteq> []"
    and "querySelectorAll ''content-section'' (document w) \<noteq> []"
  shows "initNavigation w = w\<lparr>listeners := listeners w @
     map (\<lambda>b. (b, ''click'', NavClick (querySelectorAll ''nav-btn'' (document w))
           (querySelectorAll ''content-section'' (document w)) b))
       (querySelectorAll ''nav-btn'' (document w))\<rparr>"
  unfolding initNavigation_def Let_def fold_addEventListener using assms by simp

lemma initDataNavigation_registers:
  "initDataNavigation w = w\<lparr>listeners := listeners w @
     map (\<lambda>b. (b, ''click'', DataNavClick (querySelectorAll ''data-nav-btn'' (document w))
           (querySelectorAll ''data-subsection'' (document w)) b))
       (querySelectorAll ''data-nav-btn'' (document w))\<rparr>"
  unfolding initDataNavigation_def Let_def fold_addEventListener by simp

lemma initMainNavigation_registers:
  "initMainNavigation w = w\<lparr>listeners := listeners w @
     map (\<lambda>b. (b, ''click'', MainNavClick (querySelectorAll ''nav-link'' (document w))
           (querySelectorAll ''content-section'' (document w)) b))
       (querySelectorAll ''nav-link'' (document w))\<rparr>"
  unfolding initMainNavigation_def Let_def fold_addEventListener by simp

text \<open>
  The unguarded handler of part\_000's main navigation on the example page: the link
  ``about'' has no section, and the click throws after the marks were cleared and the
  link was marked.
\<close>

lemma initMainNavigation_click_throws_on_platform_page:
  "fst (initMainNavigation_click (querySelectorAll ''nav-link'' platform_page)
          (querySelectorAll ''content-section'' platform_page) 2 (page_world platform_page))
     = Some TypeError"
proof -
  have "getElementById (js_string (getAttribute ''data-section'' 2
           (document (page_world platform_page)))) (document (page_world platform_page)) = None"
    by (simp add: page_world_def platform_page_attrs js_string_def platform_page_ids)
  from initMainNavigation_click_missing_target[OF this] show ?thesis by simp
qed

subsection \<open>Start-up on a page without any of the expected elements\<close>

text \<open>
  No initialiser stops \<^verbatim>\<open>initApp\<close>: on an empty page lab.js logs one error, three
  warnings and its success message, part\_000 only its success message, and neither
  registers a listener.
\<close>

lemma empty_page_lookups:
  "querySelectorAll c [] = []" "getElementById i [] = None"
  by (simp_all add: querySelectorAll_def getElementById_def)

lemma initApp_on_empty_page:
  "initApp expo (page_world []) =
     \<lparr>document = [],
      console =
        [(ConsoleError, [''Navigation buttons not found!'']),
         (ConsoleWarn, [''Ohm's Law elements not found, skipping initialization'']),
         (ConsoleWarn, [''KCL elements not found, skipping initialization'']),
         (ConsoleWarn, [''KVL elements not found, skipping initialization'']),
         (ConsoleLog, [''Electrical Circuit Laws application initialized successfully!''])],
      listeners = []\<rparr>"
proof -
  let ?w1 = "console_error [''Navigation buttons not found!''] (page_world [])"
  let ?w3 = "console_warn [''Ohm's Law elements not found, skipping initialization''] ?w1"
  let ?w4 = "console_warn [''KCL elements not found, skipping initialization''] ?w3"
  let ?w5 = "console_warn [''KVL elements not found, skipping initialization''] ?w4"
  have 1: "initNavigation (page_world []) = ?w1"
    by (rule initNavigation_no_buttons) (simp add: empty_page_lookups)
  have 2: "initElementTabs ?w1 = ?w1"
    by (rule initElementTabs_absent) (simp add: empty_page_lookups)
  have 3: "initOhmsLaw expo ?w1 = ?w3"
    by (rule initOhmsLaw_missing[THEN conjunct1], rule bexI[of _ "''voltage''"])
      (simp_all add: empty_page_lookups ohm_ids_def)
  have 4: "initKCL expo ?w3 = ?w4"
    by (rule initKCL_missing[THEN conjunct1], rule bexI[of _ "''i1''"])
      (simp_all add: empty_page_lookups kcl_ids_def)
  have 5: "initKVL expo ?w4 = ?w5"
    by (rule initKVL_missing[THEN conjunct1], rule bexI[of _ "''v1''"])
      (simp_all add: empty_page_lookups kvl_ids_def)
  show ?thesis
    unfolding initApp_def Let_def 1 2 3 4 5
    by (simp add: console_log_def console_warn_def console_error_def page_world_def)
qed

lemma initApp_p0_on_empty_page:
  "initApp_p0 expo (page_world []) =
     \<lparr>document = [],
      console =
        [(ConsoleLog, [''Electrical Circuits platform initialized successfully!''])],
      listeners = []\<rparr>"
proof -
  let ?w = "page_world []"
  have 1: "initMainNavigation ?w = ?w"
    by (simp add: initMainNavigation_registers empty_page_lookups page_world_def)
  have 2: "initDataNavigation ?w = ?w"
    by (simp add: initDataNavigation_registers empty_page_lookups page_world_def)
  have 3: "initElementTabs_p0 ?w = ?w"
    by (simp add: initElementTabs_p0_def empty_page_lookups)
  have 4: "initOhmsLaw_p0 expo ?w = ?w"
    by (rule initOhmsLaw_missing[THEN conjunct2], rule bexI[of _ "''voltage''"])
      (simp_all add: empty_page_lookups ohm_ids_def)
  have 5: "initKCL_p0 expo ?w = ?w"
    by (rule initKCL_missing[THEN conjunct2], rule bexI[of _ "''i1''"])
      (simp_all add: empty_page_lookups kcl_ids_def)
  have 6: "initKVL_p0 expo ?w = ?w"
    by (rule initKVL_missing[THEN conjunct2], rule bexI[of _ "''v1''"])
      (simp_all add: empty_page_lookups kvl_ids_def)
  show ?thesis
    unfolding initApp_p0_def Let_def 1 2 3 4 5 6
    by (simp add: console_log_def page_world_def)
qed


section \<open>The panels\<close>

lemma calculateOhmsLaw_finite:
  "R \<noteq> 0 \<Longrightarrow> calculateOhmsLaw (Finite V) (Finite R) = Inr (round64 (V / R))"
  by (simp add: calculateOhmsLaw_def js_div_def)

lemma nth_of_texts:
  assumes "map textContent d = ts" and "k < length ts"
  shows "textContent (d ! k) = ts ! k"
  using assms by (metis length_map nth_map)

text \<open>
  Claim C2, as amended. For every finite voltage \<open>V\<close> and every finite resistance
  \<open>R \<noteq> 0\<close>, \<^verbatim>\<open>calculateOhmsLaw(V, R)\<close> is the binary64 number nearest to
  \<open>V / R\<close> (an infinity where the quotient overflows); it is \<open>V / R\<close> whenever that
  quotient is a binary64 number. \<^verbatim>\<open>calculateOhmsLaw(10, 5)\<close> is 2, and the panel
  of either script with the sliders at 10 and 5 shows \<^verbatim>\<open>2.00 A\<close>.
\<close>

theorem calculateOhmsLaw_quotient:
  "(R \<noteq> 0 \<longrightarrow> calculateOhmsLaw (Finite V) (Finite R) = Inr (round64 (V / R))) \<and>
   (R \<noteq> 0 \<and> is_double (V / R) \<longrightarrow>
      calculateOhmsLaw (Finite V) (Finite R) = Inr (Finite (V / R))) \<and>
   calculateOhmsLaw (round64 10) (round64 5) = Inr (Finite 2) \<and>
   textContent (document (initOhmsLaw expo (page_world (ohm_page 10 5))) ! 4) = ''2.00 A'' \<and>
   textContent (document (initOhmsLaw_p0 expo (page_world (ohm_page 10 5))) ! 4) = ''2.00 A''"
proof -
  have quotient: "R \<noteq> 0 \<longrightarrow> calculateOhmsLaw (Finite V) (Finite R) = Inr (round64 (V / R))"
    by (simp add: calculateOhmsLaw_finite)
  have exact: "R \<noteq> 0 \<and> is_double (V / R) \<longrightarrow>
      calculateOhmsLaw (Finite V) (Finite R) = Inr (Finite (V / R))"
    by (simp add: calculateOhmsLaw_finite is_double_def)
  have ten_five: "calculateOhmsLaw (round64 10) (round64 5) = Inr (Finite 2)"
    unfolding round64_10 round64_5 by (rule calculateOhmsLaw_10_5)
  have lab: "textContent (document (initOhmsLaw expo (page_world (ohm_page 10 5))) ! 4) =
      ''2.00 A''"
    using nth_of_texts[OF ohm_scenario, of 4 expo] by simp
  have p0: "textContent (document (initOhmsLaw_p0 expo (page_world (ohm_page 10 5))) ! 4) =
      ''2.00 A''"
    using nth_of_texts[OF ohm_scenario_p0, of 4 expo] by simp
  from quotient exact ten_five lab p0 show ?thesis by blast
qed

theorem calculateOhmsLaw_quotient_witness:
  "(5::real) \<noteq> 0 \<and> is_double (10 / 5) \<and>
   calculateOhmsLaw (Finite 10) (Finite 5) = Inr (round64 (10 / 5)) \<and>
   calculateOhmsLaw (Finite 10) (Finite 5) = Inr (Finite (10 / 5))"
proof -
  have a: "(5::real) \<noteq> 0" by simp
  have b: "is_double (10 / 5)" by (simp add: is_double_def round64_2)
  from calculateOhmsLaw_quotient[of 5 10] a b show ?thesis by blast
qed

text \<open>
  The claim as stated, with the real quotient, fails. \<^verbatim>\<open>calculateOhmsLaw(1.5, 20)\<close>
  is a number other than \<open>1.5 / 20\<close>, and the panel with the sliders at 1.5 and 20
  shows \<^verbatim>\<open>0.07 A\<close>, where \<open>1.5 / 20 = 0.075\<close> prints as \<^verbatim>\<open>0.08\<close>. And
  \<^verbatim>\<open>calculateOhmsLaw(1e308, 0.1)\<close> is infinite.
\<close>

theorem calculateOhmsLaw_real_quotient_counterexample:
  "round64 (3 / 2) = Finite (3 / 2) \<and> round64 20 = Finite 20 \<and>
   calculateOhmsLaw (Finite (3 / 2)) (Finite 20) = Inr (Finite (5404319552844595 / 2 ^ 56)) \<and>
   (5404319552844595 / 2 ^ 56 :: real) \<noteq> 3 / 2 / 20 \<and>
   (\<forall>expo.
      textContent (document (initOhmsLaw expo (page_world (ohm_page (3 / 2) 20))) ! 4) =
        ''0.07 A'' \<and>
      toFixed expo 2 (3 / 2 / 20) = ''0.08'') \<and>
   calculateOhmsLaw (round64 (10 ^ 308)) (round64 (1 / 10)) = Inr PosInfinity"
proof -
  have a: "calculateOhmsLaw (Finite (3 / 2)) (Finite 20) =
      Inr (Finite (5404319552844595 / 2 ^ 56))"
    by (simp add: calculateOhmsLaw_1_5_20)
  have b: "(5404319552844595 / 2 ^ 56 :: real) \<noteq> 3 / 2 / 20" by simp
  have c: "textContent (document (initOhmsLaw expo (page_world (ohm_page (3 / 2) 20))) ! 4) =
      ''0.07 A''" for expo
    using nth_of_texts[OF ohm_scenario_rounded, of 4 expo] by simp
  from a b c toFixed_real_quotient round64_three_halves round64_20 calculateOhmsLaw_overflow
  show ?thesis by blast
qed






section \<open>Navigation\<close>

lemma node_list_platform_page:
  "node_list platform_page [5, 6, 7]" "node_list platform_page [8, 9]"
  by (simp_all add: node_list_def platform_page_def)

text \<open>
  Claim C7, as amended. The handlers' selectors and sections are node lists of the
  document with no element in both, and the clicked selector is one of the selectors.
  When it names a target that exists and is one of the group's sections, then after the
  click no exception is thrown and exactly one selector and exactly one section of the
  group are active: the clicked selector and its target. This holds for the navigation
  and the element tabs of lab.js and for the main navigation, the data navigation and
  the element tabs of part\_000 (the guarded handlers also need the selector's attribute
  to be non-empty). When the target does not exist, the handlers of lab.js and the
  element-tab handler of part\_000 return leaving the document as it was, and the data
  navigation of part\_000 leaves the clicked button the only active selector and no
  subsection active.
\<close>

theorem activation_marks_selector_and_target:
  assumes "node_list (document w) bs" and "node_list (document w) ss"
    and "set bs \<inter> set ss = {}" and "b \<in> set bs"
  shows
    "(t \<in> set ss \<and> \<not> falsy (getAttribute ''data-section'' b (document w)) \<and>
      getElementById (js_string (getAttribute ''data-section'' b (document w))) (document w)
        = Some t \<longrightarrow>
      marks_exactly bs ss b t (initNavigation_click bs ss b w)) \<and>
     (t \<in> set ss \<and> \<not> falsy (getAttribute ''data-element'' b (document w)) \<and>
      getElementById (js_string (getAttribute ''data-element'' b (document w)) @ ''-panel'')
        (document w) = Some t \<longrightarrow>
      marks_exactly bs ss b t (initElementTabs_click bs ss b w) \<and>
      marks_exactly bs ss b t (initElementTabs_click_p0 bs ss b w)) \<and>
     (t \<in> set ss \<and>
      getElementById (js_string (getAttribute ''data-section'' b (document w))) (document w)
        = Some t \<longrightarrow>
      marks_exactly bs ss b t (initMainNavigation_click bs ss b w)) \<and>
     (t \<in> set ss \<and>
      getElementById (js_string (getAttribute ''data-subsection'' b (document w)) @
        ''-subsection'') (document w) = Some t \<longrightarrow>
      marks_exactly bs ss b t (initDataNavigation_click bs ss b w)) \<and>
     (getElementById (js_string (getAttribute ''data-section'' b (document w))) (document w)
        = None \<longrightarrow>
      fst (initNavigation_click bs ss b w) = None \<and>
      document (snd (initNavigation_click bs ss b w)) = document w) \<and>
     (getElementById (js_string (getAttribute ''data-element'' b (document w)) @ ''-panel'')
        (document w) = None \<longrightarrow>
      fst (initElementTabs_click bs ss b w) = None \<and>
      document (snd (initElementTabs_click bs ss b w)) = document w \<and>
      fst (initElementTabs_click_p0 bs ss b w) = None \<and>
      document (snd (initElementTabs_click_p0 bs ss b w)) = document w) \<and>
     (getElementById (js_string (getAttribute ''data-subsection'' b (document w)) @
        ''-subsection'') (document w) = None \<longrightarrow>
      fst (initDataNavigation_click bs ss b w) = None \<and>
      active_among (document (snd (initDataNavigation_click bs ss b w))) bs = [b] \<and>
      active_among (document (snd (initDataNavigation_click bs ss b w))) ss = [])"
proof (intro conjI impI)
  assume "t \<in> set ss \<and> \<not> falsy (getAttribute ''data-section'' b (document w)) \<and>
      getElementById (js_string (getAttribute ''data-section'' b (document w))) (document w)
        = Some t"
  then show "marks_exactly bs ss b t (initNavigation_click bs ss b w)"
    using initNavigation_click_switches[OF assms] by blast
next
  assume "t \<in> set ss \<and> \<not> falsy (getAttribute ''data-element'' b (document w)) \<and>
      getElementById (js_string (getAttribute ''data-element'' b (document w)) @ ''-panel'')
        (document w) = Some t"
  then show "marks_exactly bs ss b t (initElementTabs_click bs ss b w)"
    and "marks_exactly bs ss b t (initElementTabs_click_p0 bs ss b w)"
    using initElementTabs_click_switches[OF assms] initElementTabs_click_p0_switches[OF assms]
    by blast+
next
  assume "t \<in> set ss \<and>
      getElementById (js_string (getAttribute ''data-section'' b (document w))) (document w)
        = Some t"
  then show "marks_exactly bs ss b t (initMainNavigation_click bs ss b w)"
    using initMainNavigation_click_switches[OF assms] by blast
next
  assume "t \<in> set ss \<and>
      getElementById (js_string (getAttribute ''data-subsection'' b (document w)) @
        ''-subsection'') (document w) = Some t"
  then show "marks_exactly bs ss b t (initDataNavigation_click bs ss b w)"
    using initDataNavigation_click_switches[OF assms] by blast
next
  assume missing: "getElementById (js_string (getAttribute ''data-section'' b (document w)))
        (document w) = None"
  show "fst (initNavigation_click bs ss b w) = None"
    by (rule initNavigation_click_returns)
  show "document (snd (initNavigation_click bs ss b w)) = document w"
  proof (cases "falsy (getAttribute ''data-section'' b (document w))")
    case True
    then show ?thesis by (simp add: initNavigation_click_no_attribute)
  next
    case False
    then show ?thesis using missing by (simp add: initNavigation_click_missing_target)
  qed
next
  assume missing: "getElementById (js_string (getAttribute ''data-element'' b (document w)) @
        ''-panel'') (document w) = None"
  show "fst (initElementTabs_click bs ss b w) = None"
    by (rule initElementTabs_click_returns)
  show "document (snd (initElementTabs_click bs ss b w)) = document w"
  proof (cases "falsy (getAttribute ''data-element'' b (document w))")
    case True
    then show ?thesis by (simp add: initElementTabs_click_no_attribute)
  next
    case False
    then show ?thesis using missing by (simp add: initElementTabs_click_missing_target)
  qed
  show "fst (initElementTabs_click_p0 bs ss b w) = None"
    by (rule initElementTabs_click_p0_returns)
  show "document (snd (initElementTabs_click_p0 bs ss b w)) = document w"
    using missing by (simp add: initElementTabs_click_p0_missing)
next
  assume missing: "getElementById (js_string (getAttribute ''data-subsection'' b (document w)) @
        ''-subsection'') (document w) = None"
  from assms have nb: "b \<notin> set ss" by auto
  note run = initDataNavigation_click_missing_target[OF missing, of bs ss]
  note marks = active_among_after_clear[OF assms(1) assms(2) assms(4) nb]
  show "fst (initDataNavigation_click bs ss b w) = None"
    by (rule initDataNavigation_click_returns)
  show "active_among (document (snd (initDataNavigation_click bs ss b w))) bs = [b]"
    unfolding run using marks by simp
  show "active_among (document (snd (initDataNavigation_click bs ss b w))) ss = []"
    unfolding run using marks by simp
qed

theorem activation_marks_selector_and_target_witness:
  "marks_exactly [0, 1, 2] [3, 4] 1 4
     (initNavigation_click [0, 1, 2] [3, 4] 1 (page_world lab_page)) \<and>
   marks_exactly [5, 6, 7] [8, 9] 6 9
     (initElementTabs_click [5, 6, 7] [8, 9] 6 (page_world lab_page)) \<and>
   marks_exactly [10, 11, 12] [13, 14] 11 14
     (initElementTabs_click_p0 [10, 11, 12] [13, 14] 11 (page_world platform_page)) \<and>
   marks_exactly [0, 1, 2] [3, 4] 1 4
     (initMainNavigation_click [0, 1, 2] [3, 4] 1 (page_world platform_page)) \<and>
   marks_exactly [5, 6, 7] [8, 9] 6 9
     (initDataNavigation_click [5, 6, 7] [8, 9] 6 (page_world platform_page)) \<and>
   document (snd (initNavigation_click [0, 1, 2] [3, 4] 2 (page_world lab_page))) = lab_page \<and>
   document (snd (initElementTabs_click [5, 6, 7] [8, 9] 7 (page_world lab_page))) = lab_page \<and>
   document (snd (initElementTabs_click_p0 [10, 11, 12] [13, 14] 12
      (page_world platform_page))) = platform_page \<and>
   active_among (document (snd (initDataNavigation_click [5, 6, 7] [8, 9] 7
      (page_world platform_page)))) [5, 6, 7] = [7] \<and>
   active_among (document (snd (initDataNavigation_click [5, 6, 7] [8, 9] 7
      (page_world platform_page)))) [8, 9] = []"
proof (intro conjI)
  have bs: "node_list (document (page_world lab_page)) [0, 1, 2]"
    and ss: "node_list (document (page_world lab_page)) [3, 4]"
    by (simp_all add: node_list_def lab_page_def)
  have d: "set ([0, 1, 2]::nat list) \<inter> set ([3, 4]::nat list) = {}" and b: "1 \<in> set ([0, 1, 2]::nat list)" and t: "4 \<in> set ([3, 4]::nat list)"
    by simp_all
  have target: "\<not> falsy (getAttribute ''data-section'' 1 (document (page_world lab_page))) \<and>
      getElementById (js_string (getAttribute ''data-section'' 1 (document (page_world lab_page))))
        (document (page_world lab_page)) = Some 4"
    by (simp add: lab_page_attrs lab_page_ids falsy_def js_string_def)
  from activation_marks_selector_and_target[OF bs ss d b, where t = 4] t target
  show "marks_exactly [0, 1, 2] [3, 4] 1 4
     (initNavigation_click [0, 1, 2] [3, 4] 1 (page_world lab_page))"
    by blast
next
  have bs: "node_list (document (page_world lab_page)) [5, 6, 7]"
    and ss: "node_list (document (page_world lab_page)) [8, 9]"
    by (simp_all add: node_list_def lab_page_def)
  have d: "set ([5, 6, 7]::nat list) \<inter> set ([8, 9]::nat list) = {}" and b: "6 \<in> set ([5, 6, 7]::nat list)" and t: "9 \<in> set ([8, 9]::nat list)"
    by simp_all
  have target: "\<not> falsy (getAttribute ''data-element'' 6 (document (page_world lab_page))) \<and>
      getElementById (js_string (getAttribute ''data-element'' 6 (document (page_world lab_page))) @ ''-panel'')
        (document (page_world lab_page)) = Some 9"
    by (simp add: lab_page_attrs lab_page_ids falsy_def js_string_def)
  from activation_marks_selector_and_target[OF bs ss d b, where t = 9] t target
  show "marks_exactly [5, 6, 7] [8, 9] 6 9
     (initElementTabs_click [5, 6, 7] [8, 9] 6 (page_world lab_page))"
    by blast
next
  have bs: "node_list (document (page_world platform_page)) [10, 11, 12]"
    and ss: "node_list (document (page_world platform_page)) [13, 14]"
    by (simp_all add: node_list_def platform_page_def)
  have d: "set ([10, 11, 12]::nat list) \<inter> set ([13, 14]::nat list) = {}" and b: "11 \<in> set ([10, 11, 12]::nat list)" and t: "14 \<in> set ([13, 14]::nat list)"
    by simp_all
  have target: "\<not> falsy (getAttribute ''data-element'' 11 (document (page_world platform_page))) \<and>
      getElementById (js_string (getAttribute ''data-element'' 11 (document (page_world platform_page))) @ ''-panel'')
        (document (page_world platform_page)) = Some 14"
    by (simp add: platform_page_attrs platform_page_ids falsy_def js_string_def)
  from activation_marks_selector_and_target[OF bs ss d b, where t = 14] t target
  show "marks_exactly [10, 11, 12] [13, 14] 11 14
     (initElementTabs_click_p0 [10, 11, 12] [13, 14] 11 (page_world platform_page))"
    by blast
next
  have bs: "node_list (document (page_world platform_page)) [0, 1, 2]"
    and ss: "node_list (document (page_world platform_page)) [3, 4]"
    by (simp_all add: node_list_def platform_page_def)
  have d: "set ([0, 1, 2]::nat list) \<inter> set ([3, 4]::nat list) = {}" and b: "1 \<in> set ([0, 1, 2]::nat list)" and t: "4 \<in> set ([3, 4]::nat list)"
    by simp_all
  have target: "getElementById (js_string (getAttribute ''data-section'' 1 (document (page_world platform_page))))
        (document (page_world platform_page)) = Some 4"
    by (simp add: platform_page_attrs platform_page_ids falsy_def js_string_def)
  from activation_marks_selector_and_target[OF bs ss d b, where t = 4] t target
  show "marks_exactly [0, 1, 2] [3, 4] 1 4
     (initMainNavigation_click [0, 1, 2] [3, 4] 1 (page_world platform_page))"
    by blast
next
  have bs: "node_list (document (page_world platform_page)) [5, 6, 7]"
    and ss: "node_list (document (page_world platform_page)) [8, 9]"
    by (simp_all add: node_list_def platform_page_def)
  have d: "set ([5, 6, 7]::nat list) \<inter> set ([8, 9]::nat list) = {}" and b: "6 \<in> set ([5, 6, 7]::nat list)" and t: "9 \<in> set ([8, 9]::nat list)"
    by simp_all
  have target: "getElementById (js_string (getAttribute ''data-subsection'' 6 (document (page_world platform_page))) @ ''-subsection'')
        (document (page_world platform_page)) = Some 9"
    by (simp add: platform_page_attrs platform_page_ids falsy_def js_string_def)
  from activation_marks_selector_and_target[OF bs ss d b, where t = 9] t target
  show "marks_exactly [5, 6, 7] [8, 9] 6 9
     (initDataNavigation_click [5, 6, 7] [8, 9] 6 (page_world platform_page))"
    by blast
next
  have bs: "node_list (document (page_world lab_page)) [0, 1, 2]"
    and ss: "node_list (document (page_world lab_page)) [3, 4]"
    by (simp_all add: node_list_def lab_page_def)
  have d: "set ([0, 1, 2]::nat list) \<inter> set ([3, 4]::nat list) = {}" and b: "2 \<in> set ([0, 1, 2]::nat list)"
    by simp_all
  have missing: "getElementById (js_string (getAttribute ''data-section'' 2
        (document (page_world lab_page)))) (document (page_world lab_page)) = None"
    by (simp add: lab_page_attrs lab_page_ids js_string_def)
  from activation_marks_selector_and_target[OF bs ss d b] missing
  have "document (snd (initNavigation_click [0, 1, 2] [3, 4] 2 (page_world lab_page))) =
     document (page_world lab_page)"
    by blast
  then show "document (snd (initNavigation_click [0, 1, 2] [3, 4] 2 (page_world lab_page))) =
     lab_page"
    by simp
next
  have bs: "node_list (document (page_world lab_page)) [5, 6, 7]"
    and ss: "node_list (document (page_world lab_page)) [8, 9]"
    by (simp_all add: node_list_def lab_page_def)
  have d: "set ([5, 6, 7]::nat list) \<inter> set ([8, 9]::nat list) = {}" and b: "7 \<in> set ([5, 6, 7]::nat list)"
    by simp_all
  have missing: "getElementById (js_string (getAttribute ''data-element'' 7
        (document (page_world lab_page))) @ ''-panel'') (document (page_world lab_page)) = None"
    by (simp add: lab_page_attrs lab_page_ids js_string_def)
  from activation_marks_selector_and_target[OF bs ss d b] missing
  have "document (snd (initElementTabs_click [5, 6, 7] [8, 9] 7 (page_world lab_page))) =
     document (page_world lab_page)"
    by blast
  then show "document (snd (initElementTabs_click [5, 6, 7] [8, 9] 7 (page_world lab_page))) =
     lab_page"
    by simp
next
  have bs: "node_list (document (page_world platform_page)) [10, 11, 12]"
    and ss: "node_list (document (page_world platform_page)) [13, 14]"
    by (simp_all add: node_list_def platform_page_def)
  have d: "set ([10, 11, 12]::nat list) \<inter> set ([13, 14]::nat list) = {}" and b: "12 \<in> set ([10, 11, 12]::nat list)"
    by simp_all
  have missing: "getElementById (js_string (getAttribute ''data-element'' 12
        (document (page_world platform_page))) @ ''-panel'')
        (document (page_world platform_page)) = None"
    by (simp add: platform_page_attrs platform_page_ids js_string_def)
  from activation_marks_selector_and_target[OF bs ss d b] missing
  have "document (snd (initElementTabs_click_p0 [10, 11, 12] [13, 14] 12
      (page_world platform_page))) = document (page_world platform_page)"
    by blast
  then show "document (snd (initElementTabs_click_p0 [10, 11, 12] [13, 14] 12
      (page_world platform_page))) = platform_page"
    by simp
next
  have bs: "node_list (document (page_world platform_page)) [5, 6, 7]"
    and ss: "node_list (document (page_world platform_page)) [8, 9]"
    by (simp_all add: node_list_def platform_page_def)
  have d: "set ([5, 6, 7]::nat list) \<inter> set ([8, 9]::nat list) = {}" and b: "7 \<in> set ([5, 6, 7]::nat list)"
    by simp_all
  have missing: "getElementById (js_string (getAttribute ''data-subsection'' 7
        (document (page_world platform_page))) @ ''-subsection'')
        (document (page_world platform_page)) = None"
    by (simp add: platform_page_attrs platform_page_ids js_string_def)
  from activation_marks_selector_and_target[OF bs ss d b] missing
  show "active_among (document (snd (initDataNavigation_click [5, 6, 7] [8, 9] 7
      (page_world platform_page)))) [5, 6, 7] = [7]"
    and "active_among (document (snd (initDataNavigation_click [5, 6, 7] [8, 9] 7
      (page_world platform_page)))) [8, 9] = []"
    by blast+
qed

text \<open>
  The claim as stated (``after any activation'') fails: on the page of part\_000 the
  data button ``lab'' names no existing subsection, and after a click on it no
  subsection is active, whatever section one takes for its target.
\<close>

theorem activation_without_target_counterexample:
  "\<not> (\<exists>t. marks_exactly (querySelectorAll ''data-nav-btn'' platform_page)
           (querySelectorAll ''data-subsection'' platform_page) 7 t
           (initDataNavigation_click (querySelectorAll ''data-nav-btn'' platform_page)
              (querySelectorAll ''data-subsection'' platform_page) 7
              (page_world platform_page)))"
proof -
  have missing: "getElementById (js_string (getAttribute ''data-subsection'' 7
        (document (page_world platform_page))) @ ''-subsection'')
        (document (page_world platform_page)) = None"
    by (simp add: platform_page_attrs platform_page_ids js_string_def)
  have cleared: "active_among (classList_add ''active'' 7
       (fold (classList_remove ''active'') [8, 9]
         (fold (classList_remove ''active'') [5, 6, 7] platform_page))) [8, 9] = []"
    using active_among_after_clear[of platform_page "[5, 6, 7]" "[8, 9]" 7]
    by (simp add: node_list_platform_page)
  show ?thesis
    unfolding platform_page_queries marks_exactly_def
      initDataNavigation_click_missing_target[OF missing]
    using cleared by simp
qed

text \<open>
  Claim C9. In the data navigation of part\_000, a click on a button whose target
  subsection does not exist still removes \<^verbatim>\<open>active\<close> from every button and
  subsection and marks the clicked button: afterwards the clicked button is the only
  active button and no subsection is active, whatever was selected before. In the
  navigation of lab.js a click on a button whose target does not exist changes nothing
  of the document.
\<close>

theorem missing_target_data_navigation_versus_lab:
  assumes "node_list (document w) bs" and "node_list (document w) ss"
    and "b \<in> set bs" and "b \<notin> set ss"
  shows
    "(getElementById (js_string (getAttribute ''data-subsection'' b (document w)) @
        ''-subsection'') (document w) = None \<longrightarrow>
      fst (initDataNavigation_click bs ss b w) = None \<and>
      active_among (document (snd (initDataNavigation_click bs ss b w))) bs = [b] \<and>
      active_among (document (snd (initDataNavigation_click bs ss b w))) ss = []) \<and>
     (getElementById (js_string (getAttribute ''data-section'' b (document w))) (document w)
        = None \<longrightarrow>
      fst (initNavigation_click bs ss b w) = None \<and>
      document (snd (initNavigation_click bs ss b w)) = document w)"
proof (intro conjI impI)
  assume missing: "getElementById (js_string (getAttribute ''data-subsection'' b (document w)) @
        ''-subsection'') (document w) = None"
  note run = initDataNavigation_click_missing_target[OF missing, of bs ss]
  note marks = active_among_after_clear[OF assms]
  show "fst (initDataNavigation_click bs ss b w) = None"
    by (rule initDataNavigation_click_returns)
  show "active_among (document (snd (initDataNavigation_click bs ss b w))) bs = [b]"
    unfolding run using marks by simp
  show "active_among (document (snd (initDataNavigation_click bs ss b w))) ss = []"
    unfolding run using marks by simp
next
  assume missing: "getElementById (js_string (getAttribute ''data-section'' b (document w)))
        (document w) = None"
  show "fst (initNavigation_click bs ss b w) = None"
    by (rule initNavigation_click_returns)
  show "document (snd (initNavigation_click bs ss b w)) = document w"
  proof (cases "falsy (getAttribute ''data-section'' b (document w))")
    case True
    then show ?thesis by (simp add: initNavigation_click_no_attribute)
  next
    case False
    then show ?thesis using missing by (simp add: initNavigation_click_missing_target)
  qed
qed

theorem missing_target_data_navigation_versus_lab_witness:
  "active_among platform_page [5, 6, 7] = [5] \<and> active_among platform_page [8, 9] = [8] \<and>
   active_among (document (snd (initDataNavigation_click [5, 6, 7] [8, 9] 7
      (page_world platform_page)))) [5, 6, 7] = [7] \<and>
   active_among (document (snd (initDataNavigation_click [5, 6, 7] [8, 9] 7
      (page_world platform_page)))) [8, 9] = [] \<and>
   document (snd (initNavigation_click [0, 1, 2] [3, 4] 2 (page_world lab_page))) = lab_page"
proof (intro conjI)
  show "active_among platform_page [5, 6, 7] = [5]"
    by (simp add: active_among_def platform_page_def selector_def section_of_def)
  show "active_among platform_page [8, 9] = [8]"
    by (simp add: active_among_def platform_page_def selector_def section_of_def)
  have bs: "node_list (document (page_world platform_page)) [5, 6, 7]"
    and ss: "node_list (document (page_world platform_page)) [8, 9]"
    by (simp_all add: node_list_def platform_page_def)
  have b: "7 \<in> set ([5, 6, 7]::nat list)" "7 \<notin> set ([8, 9]::nat list)" by simp_all
  have missing: "getElementById (js_string (getAttribute ''data-subsection'' 7
        (document (page_world platform_page))) @ ''-subsection'')
        (document (page_world platform_page)) = None"
    by (simp add: platform_page_attrs platform_page_ids js_string_def)
  from missing_target_data_navigation_versus_lab[OF bs ss b] missing
  show "active_among (document (snd (initDataNavigation_click [5, 6, 7] [8, 9] 7
      (page_world platform_page)))) [5, 6, 7] = [7]"
    and "active_among (document (snd (initDataNavigation_click [5, 6, 7] [8, 9] 7
      (page_world platform_page)))) [8, 9] = []"
    by blast+
  have lbs: "node_list (document (page_world lab_page)) [0, 1, 2]"
    and lss: "node_list (document (page_world lab_page)) [3, 4]"
    by (simp_all add: node_list_def lab_page_def)
  have lb: "2 \<in> set ([0, 1, 2]::nat list)" "2 \<notin> set ([3, 4]::nat list)" by simp_all
  have missing_lab: "getElementById (js_string (getAttribute ''data-section'' 2
        (document (page_world lab_page)))) (document (page_world lab_page)) = None"
    by (simp add: lab_page_attrs lab_page_ids js_string_def)
  from missing_target_data_navigation_versus_lab[OF lbs lss lb] missing_lab
  have "document (snd (initNavigation_click [0, 1, 2] [3, 4] 2 (page_world lab_page))) =
     document (page_world lab_page)"
    by blast
  then show "document (snd (initNavigation_click [0, 1, 2] [3, 4] 2 (page_world lab_page))) =
     lab_page"
    by simp
qed

section \<open>Missing elements\<close>

lemma logged_early_return_console_error:
  "logged_early_return w (None, console_error args w)"
  by (simp add: logged_early_return_def console_error_def)

text \<open>
  Claim C8, as amended. Leaving aside the main navigation handler of part\_000, a
  missing expected DOM element never results in an exception, and:
  \<^item> in lab.js, \<^verbatim>\<open>initNavigation\<close> (no buttons, no sections) and the click
    handlers of the navigation and of the element tabs (no target) return early with
    one console error and nothing else changed; \<^verbatim>\<open>initOhmsLaw\<close>,
    \<^verbatim>\<open>initKCL\<close> and \<^verbatim>\<open>initKVL\<close> return early with one console warning and
    nothing else changed; \<^verbatim>\<open>initElementTabs\<close> returns early without a message;
  \<^item> in part\_000 nothing is logged: \<^verbatim>\<open>initOhmsLaw\<close>, \<^verbatim>\<open>initKCL\<close>,
    \<^verbatim>\<open>initKVL\<close> and the element tabs' click handler return early with the world
    unchanged, and the data navigation's click handler does not return early: it clears
    the marks and marks the button, then skips the missing target.
\<close>

theorem missing_elements_handled:
  "(querySelectorAll ''nav-btn'' (document w) = [] \<longrightarrow>
      initNavigation w = console_error [''Navigation buttons not found!''] w) \<and>
   (querySelectorAll ''nav-btn'' (document w) \<noteq> [] \<and>
    querySelectorAll ''content-section'' (document w) = [] \<longrightarrow>
      initNavigation w = console_error [''Content sections not found!''] w) \<and>
   (querySelectorAll ''element-tab'' (document w) = [] \<or>
    querySelectorAll ''element-panel'' (document w) = [] \<longrightarrow>
      initElementTabs w = w) \<and>
   ((\<exists>i\<in>set ohm_ids. getElementById i (document w) = None) \<longrightarrow>
      initOhmsLaw expo w =
        console_warn [''Ohm's Law elements not found, skipping initialization''] w \<and>
      initOhmsLaw_p0 expo w = w) \<and>
   ((\<exists>i\<in>set kcl_ids. getElementById i (document w) = None) \<longrightarrow>
      initKCL expo w =
        console_warn [''KCL elements not found, skipping initialization''] w \<and>
      initKCL_p0 expo w = w) \<and>
   ((\<exists>i\<in>set kvl_ids. getElementById i (document w) = None) \<longrightarrow>
      initKVL expo w =
        console_warn [''KVL elements not found, skipping initialization''] w \<and>
      initKVL_p0 expo w = w) \<and>
   (\<not> falsy (getAttribute ''data-section'' b (document w)) \<and>
    getElementById (js_string (getAttribute ''data-section'' b (document w))) (document w)
      = None \<longrightarrow>
      initNavigation_click bs ss b w =
        (None, console_error [''Target section not found:'',
           js_string (getAttribute ''data-section'' b (document w))] w)) \<and>
   (\<not> falsy (getAttribute ''data-element'' b (document w)) \<and>
    getElementById (js_string (getAttribute ''data-element'' b (document w)) @ ''-panel'')
      (document w) = None \<longrightarrow>
      initElementTabs_click bs ss b w =
        (None, console_error [''Target panel not found:'',
           js_string (getAttribute ''data-element'' b (document w))] w) \<and>
      initElementTabs_click_p0 bs ss b w = (None, w)) \<and>
   (getElementById (js_string (getAttribute ''data-subsection'' b (document w)) @
      ''-subsection'') (document w) = None \<longrightarrow>
      initDataNavigation_click bs ss b w =
        (None, w\<lparr>document := classList_add ''active'' b
           (fold (classList_remove ''active'') ss
             (fold (classList_remove ''active'') bs (document w)))\<rparr>)) \<and>
   fst (initNavigation_click bs ss b w) = None \<and>
   fst (initElementTabs_click bs ss b w) = None \<and>
   fst (initElementTabs_click_p0 bs ss b w) = None \<and>
   fst (initDataNavigation_click bs ss b w) = None"
proof -
  have nav: "querySelectorAll ''nav-btn'' (document w) = [] \<longrightarrow>
      initNavigation w = console_error [''Navigation buttons not found!''] w"
    using initNavigation_no_buttons by blast
  have nav': "querySelectorAll ''nav-btn'' (document w) \<noteq> [] \<and>
    querySelectorAll ''content-section'' (document w) = [] \<longrightarrow>
      initNavigation w = console_error [''Content sections not found!''] w"
    using initNavigation_no_sections by blast
  have tabs: "querySelectorAll ''element-tab'' (document w) = [] \<or>
    querySelectorAll ''element-panel'' (document w) = [] \<longrightarrow> initElementTabs w = w"
    using initElementTabs_absent by blast
  have ohm: "(\<exists>i\<in>set ohm_ids. getElementById i (document w) = None) \<longrightarrow>
      initOhmsLaw expo w =
        console_warn [''Ohm's Law elements not found, skipping initialization''] w \<and>
      initOhmsLaw_p0 expo w = w"
    using initOhmsLaw_missing by blast
  have kcl: "(\<exists>i\<in>set kcl_ids. getElementById i (document w) = None) \<longrightarrow>
      initKCL expo w =
        console_warn [''KCL elements not found, skipping initialization''] w \<and>
      initKCL_p0 expo w = w"
    using initKCL_missing by blast
  have kvl: "(\<exists>i\<in>set kvl_ids. getElementById i (document w) = None) \<longrightarrow>
      initKVL expo w =
        console_warn [''KVL elements not found, skipping initialization''] w \<and>
      initKVL_p0 expo w = w"
    using initKVL_missing by blast
  have click: "\<not> falsy (getAttribute ''data-section'' b (document w)) \<and>
    getElementById (js_string (getAttribute ''data-section'' b (document w))) (document w)
      = None \<longrightarrow>
      initNavigation_click bs ss b w =
        (None, console_error [''Target section not found:'',
           js_string (getAttribute ''data-section'' b (document w))] w)"
    using initNavigation_click_missing_target by blast
  have tab_click: "\<not> falsy (getAttribute ''data-element'' b (document w)) \<and>
    getElementById (js_string (getAttribute ''data-element'' b (document w)) @ ''-panel'')
      (document w) = None \<longrightarrow>
      initElementTabs_click bs ss b w =
        (None, console_error [''Target panel not found:'',
           js_string (getAttribute ''data-element'' b (document w))] w) \<and>
      initElementTabs_click_p0 bs ss b w = (None, w)"
    using initElementTabs_click_missing_target initElementTabs_click_p0_missing by blast
  have data_click: "getElementById (js_string (getAttribute ''data-subsection'' b (document w)) @
      ''-subsection'') (document w) = None \<longrightarrow>
      initDataNavigation_click bs ss b w =
        (None, w\<lparr>document := classList_add ''active'' b
           (fold (classList_remove ''active'') ss
             (fold (classList_remove ''active'') bs (document w)))\<rparr>)"
    using initDataNavigation_click_missing_target by blast
  note returns = initNavigation_click_returns[of bs ss b w]
    initElementTabs_click_returns[of bs ss b w]
    initElementTabs_click_p0_returns[of bs ss b w]
    initDataNavigation_click_returns[of bs ss b w]
  from nav nav' tabs ohm kcl kvl click tab_click data_click returns
  show ?thesis by (intro conjI)
qed

theorem missing_elements_handled_witness:
  "\<forall>expo.
     initNavigation (page_world []) =
       console_error [''Navigation buttons not found!''] (page_world []) \<and>
     initElementTabs (page_world []) = page_world [] \<and>
     initOhmsLaw expo (page_world []) =
       console_warn [''Ohm's Law elements not found, skipping initialization''] (page_world []) \<and>
     initOhmsLaw_p0 expo (page_world []) = page_world [] \<and>
     initKCL expo (page_world []) =
       console_warn [''KCL elements not found, skipping initialization''] (page_world []) \<and>
     initKCL_p0 expo (page_world []) = page_world [] \<and>
     initKVL expo (page_world []) =
       console_warn [''KVL elements not found, skipping initialization''] (page_world []) \<and>
     initKVL_p0 expo (page_world []) = page_world [] \<and>
     initNavigation_click [0, 1, 2] [3, 4] 2 (page_world lab_page) =
       (None, console_error [''Target section not found:'', ''power''] (page_world lab_page)) \<and>
     initElementTabs_click [5, 6, 7] [8, 9] 7 (page_world lab_page) =
       (None, console_error [''Target panel not found:'', ''diode''] (page_world lab_page)) \<and>
     initElementTabs_click_p0 [10, 11, 12] [13, 14] 12 (page_world platform_page) =
       (None, page_world platform_page)"
proof
  fix expo
  let ?e = "page_world []"
  have e1: "querySelectorAll ''nav-btn'' (document ?e) = []"
    and e2: "querySelectorAll ''element-tab'' (document ?e) = [] \<or>
       querySelectorAll ''element-panel'' (document ?e) = []"
    by (simp_all add: querySelectorAll_def)
  have none: "getElementById i [] = None" for i
    by (simp add: getElementById_def)
  have e3: "\<exists>i\<in>set ohm_ids. getElementById i (document ?e) = None"
    by (rule bexI[of _ "''voltage''"]) (simp_all add: none ohm_ids_def)
  have e4: "\<exists>i\<in>set kcl_ids. getElementById i (document ?e) = None"
    by (rule bexI[of _ "''i1''"]) (simp_all add: none kcl_ids_def)
  have e5: "\<exists>i\<in>set kvl_ids. getElementById i (document ?e) = None"
    by (rule bexI[of _ "''v1''"]) (simp_all add: none kvl_ids_def)
  note empty = missing_elements_handled[of ?e expo]
  let ?l = "page_world lab_page"
  have l1: "\<not> falsy (getAttribute ''data-section'' 2 (document ?l)) \<and>
      getElementById (js_string (getAttribute ''data-section'' 2 (document ?l))) (document ?l)
        = None"
    and l1': "js_string (getAttribute ''data-section'' 2 (document ?l)) = ''power''"
    by (simp_all add: lab_page_attrs lab_page_ids falsy_def js_string_def)
  have l2: "\<not> falsy (getAttribute ''data-element'' 7 (document ?l)) \<and>
      getElementById (js_string (getAttribute ''data-element'' 7 (document ?l)) @ ''-panel'')
        (document ?l) = None"
    and l2': "js_string (getAttribute ''data-element'' 7 (document ?l)) = ''diode''"
    by (simp_all add: lab_page_attrs lab_page_ids falsy_def js_string_def)
  let ?p = "page_world platform_page"
  have p1: "\<not> falsy (getAttribute ''data-element'' 12 (document ?p)) \<and>
      getElementById (js_string (getAttribute ''data-element'' 12 (document ?p)) @ ''-panel'')
        (document ?p) = None"
    by (simp add: platform_page_attrs platform_page_ids falsy_def js_string_def)
  have nav_click: "initNavigation_click [0, 1, 2] [3, 4] 2 ?l =
       (None, console_error [''Target section not found:'', ''power''] ?l)"
    using missing_elements_handled[of ?l expo 2 "[0, 1, 2]" "[3, 4]"] l1
    unfolding l1' by blast
  have tab_click: "initElementTabs_click [5, 6, 7] [8, 9] 7 ?l =
       (None, console_error [''Target panel not found:'', ''diode''] ?l)"
    using missing_elements_handled[of ?l expo 7 "[5, 6, 7]" "[8, 9]"] l2
    unfolding l2' by blast
  have tab_click_p0: "initElementTabs_click_p0 [10, 11, 12] [13, 14] 12 ?p = (None, ?p)"
    using missing_elements_handled[of ?p expo 12 "[10, 11, 12]" "[13, 14]"] p1 by blast
  from empty e1 e2 e3 e4 e5 nav_click tab_click tab_click_p0
  show "initNavigation ?e = console_error [''Navigation buttons not found!''] ?e \<and>
     initElementTabs ?e = ?e \<and>
     initOhmsLaw expo ?e =
       console_warn [''Ohm's Law elements not found, skipping initialization''] ?e \<and>
     initOhmsLaw_p0 expo ?e = ?e \<and>
     initKCL expo ?e =
       console_warn [''KCL elements not found, skipping initialization''] ?e \<and>
     initKCL_p0 expo ?e = ?e \<and>
     initKVL expo ?e =
       console_warn [''KVL elements not found, skipping initialization''] ?e \<and>
     initKVL_p0 expo ?e = ?e \<and>
     initNavigation_click [0, 1, 2] [3, 4] 2 ?l =
       (None, console_error [''Target section not found:'', ''power''] ?l) \<and>
     initElementTabs_click [5, 6, 7] [8, 9] 7 ?l =
       (None, console_error [''Target panel not found:'', ''diode''] ?l) \<and>
     initElementTabs_click_p0 [10, 11, 12] [13, 14] 12 ?p = (None, ?p)"
    by blast
qed

text \<open>
  The claim as stated fails where the code is silent. On the page of part\_000 the tab
  ``diode'' has no panel and the data button ``lab'' has no subsection: the tab's click
  returns early and the button's click does not, and neither writes to the console.
\<close>

theorem silent_missing_element_counterexample:
  "getElementById ''diode-panel'' platform_page = None \<and>
   getElementById ''lab-subsection'' platform_page = None \<and>
   \<not> logged_early_return (page_world platform_page)
       (initElementTabs_click_p0 (querySelectorAll ''element-tab'' platform_page)
          (querySelectorAll ''element-panel'' platform_page) 12 (page_world platform_page)) \<and>
   \<not> logged_early_return (page_world platform_page)
       (initDataNavigation_click (querySelectorAll ''data-nav-btn'' platform_page)
          (querySelectorAll ''data-subsection'' platform_page) 7 (page_world platform_page))"
proof -
  let ?p = "page_world platform_page"
  have tab: "falsy (getAttribute ''data-element'' 12 (document ?p)) \<or>
      getElementById (js_string (getAttribute ''data-element'' 12 (document ?p)) @ ''-panel'')
        (document ?p) = None"
    by (simp add: platform_page_attrs platform_page_ids falsy_def js_string_def)
  have data: "getElementById (js_string (getAttribute ''data-subsection'' 7 (document ?p)) @
        ''-subsection'') (document ?p) = None"
    by (simp add: platform_page_attrs platform_page_ids js_string_def)
  have "\<not> logged_early_return ?p (initElementTabs_click_p0 [10, 11, 12] [13, 14] 12 ?p)"
    unfolding initElementTabs_click_p0_missing[OF tab]
    by (simp add: logged_early_return_def)
  moreover have "\<not> logged_early_return ?p (initDataNavigation_click [5, 6, 7] [8, 9] 7 ?p)"
    unfolding initDataNavigation_click_missing_target[OF data]
    by (simp add: logged_early_return_def)
  ultimately show ?thesis
    by (simp add: platform_page_queries platform_page_ids)
qed

end

